theory Spec2Isabelle
  imports Complex_Main "HOL-Library.Sublist"
begin

section \<open>Pod specifications (k8s.io/api/core/v1, the part the server touches)\<close>

text \<open>
  A \<^verbatim>\<open>v1.ResourceList\<close> is a Go map from resource names to quantities. A nil map reads
  as an empty one; the server replaces a nil map by an empty one before it writes. The
  model keeps the difference: \<open>None\<close> is the nil map. Quantities are only copied and
  compared, so they are kept as integers.
\<close>

type_synonym Quantity = int
type_synonym ResourceList = "string \<rightharpoonup> Quantity"

record ResourceRequirements =
  Limits :: "ResourceList option"
  Requests :: "ResourceList option"

record Container =
  Container_Name :: string
  Resources :: ResourceRequirements

record Toleration =
  Key :: string
  Operator :: string
  Value :: string
  Effect :: string

record PodSpec =
  Containers :: "Container list"
  Tolerations :: "Toleration list"
  NodeSelector :: "(string \<rightharpoonup> string) option"

text \<open>Reading a Go map that may be nil: \<^verbatim>\<open>_, ok := m[r]\<close>.\<close>

definition lookupRL :: "ResourceList option \<Rightarrow> string \<Rightarrow> Quantity option" where
  "lookupRL m r = (case m of None \<Rightarrow> None | Some rl \<Rightarrow> rl r)"

definition orEmpty :: "ResourceList option \<Rightarrow> ResourceList" where
  "orEmpty m = (case m of None \<Rightarrow> Map.empty | Some rl \<Rightarrow> rl)"

section \<open>fillContainerRequestsAndLimits\<close>

text \<open>
  \<^verbatim>\<open>for resourceName, quantity := range src { if _, ok := dst[resourceName]; !ok { dst[resourceName] = quantity } }\<close>
  Go leaves the order of a range over a map open. Every iteration reads \<open>src\<close> and
  writes \<open>dst\<close> at its own key only, so the loop is given by its effect on each key.
\<close>

definition copyMissing :: "ResourceList \<Rightarrow> ResourceList \<Rightarrow> ResourceList" where
  "copyMissing src dst = (\<lambda>r. case dst r of Some q \<Rightarrow> Some q | None \<Rightarrow> src r)"

text \<open>The body of the loop over the containers, for one container.\<close>

definition fillContainer :: "Container \<Rightarrow> Container" where
  "fillContainer c =
     (let limits0 = orEmpty (Limits (Resources c));
          requests0 = orEmpty (Requests (Resources c));
          requests1 = copyMissing limits0 requests0;
          limits1 = copyMissing requests1 limits0
      in c\<lparr>Resources := \<lparr>Limits = Some limits1, Requests = Some requests1\<rparr>\<rparr>)"

definition fillContainerRequestsAndLimits :: "Container list \<Rightarrow> Container list" where
  "fillContainerRequestsAndLimits containers = map fillContainer containers"

section \<open>applyDefaultsToPodSpec\<close>

text \<open>
  \<^verbatim>\<open>DefaultJobLimits\<close> is a Go map from resource names to quantities,
  \<^verbatim>\<open>DefaultJobTolerations\<close> a slice.
\<close>

record SchedulingConfig =
  DefaultJobLimits :: "string \<rightharpoonup> Quantity"
  DefaultJobTolerations :: "Toleration list"

text \<open>
  The loop over \<^verbatim>\<open>DefaultJobLimits\<close> for one container. As in the source, both
  \<open>hasLimit\<close> and \<open>hasRequest\<close> are read from \<^verbatim>\<open>c.Resources.Limits\<close>. The keys of the
  defaults are distinct and an iteration touches its own key only, so the loop is given
  by its effect on each key.
\<close>

definition applyDefaultLimits :: "(string \<rightharpoonup> Quantity) \<Rightarrow> Container \<Rightarrow> Container" where
  "applyDefaultLimits defaults c =
     (let limits0 = orEmpty (Limits (Resources c));
          requests0 = orEmpty (Requests (Resources c));
          hasLimit = (\<lambda>res. limits0 res \<noteq> None);
          hasRequest = (\<lambda>res. limits0 res \<noteq> None);
          applies = (\<lambda>res. defaults res \<noteq> None \<and> \<not> hasLimit res \<and> \<not> hasRequest res)
      in c\<lparr>Resources :=
            \<lparr>Limits = Some (\<lambda>res. if applies res then defaults res else limits0 res),
             Requests = Some (\<lambda>res. if applies res then defaults res else requests0 res)\<rparr>\<rparr>)"

text \<open>\<^verbatim>\<open>Toleration.MatchToleration\<close> of the Kubernetes API: all four fields agree.\<close>

definition MatchToleration :: "Toleration \<Rightarrow> Toleration \<Rightarrow> bool" where
  "MatchToleration t tolerationToMatch \<longleftrightarrow>
     Key t = Key tolerationToMatch \<and> Effect t = Effect tolerationToMatch \<and>
     Operator t = Operator tolerationToMatch \<and> Value t = Value tolerationToMatch"

text \<open>
  \<^verbatim>\<open>podTolerations[podToleration.Key] = podToleration\<close> over the pod's tolerations: the last
  toleration of a key stays.
\<close>

fun podTolerationsMap :: "Toleration list \<Rightarrow> (string \<rightharpoonup> Toleration)" where
  "podTolerationsMap [] = Map.empty"
| "podTolerationsMap (t # ts) =
     (\<lambda>k. case podTolerationsMap ts k of Some t' \<Rightarrow> Some t' | None \<Rightarrow> (if k = Key t then Some t else None))"

fun addDefaultTolerations ::
  "(string \<rightharpoonup> Toleration) \<Rightarrow> Toleration list \<Rightarrow> Toleration list \<Rightarrow> Toleration list" where
  "addDefaultTolerations podTolerations [] tolerations = tolerations"
| "addDefaultTolerations podTolerations (defaultToleration # ds) tolerations =
     (case podTolerations (Key defaultToleration) of
        None \<Rightarrow> addDefaultTolerations podTolerations ds (tolerations @ [defaultToleration])
      | Some podToleration \<Rightarrow>
          if \<not> MatchToleration defaultToleration podToleration
          then addDefaultTolerations podTolerations ds (tolerations @ [defaultToleration])
          else addDefaultTolerations podTolerations ds tolerations)"

text \<open>A nil \<^verbatim>\<open>*v1.PodSpec\<close> is \<open>None\<close>; the function returns at once on it.\<close>

definition applyDefaultsToPodSpec :: "SchedulingConfig \<Rightarrow> PodSpec option \<Rightarrow> PodSpec option" where
  "applyDefaultsToPodSpec schedulingConfig spec =
     (case spec of
        None \<Rightarrow> None
      | Some s \<Rightarrow>
          Some (s\<lparr>Containers := map (applyDefaultLimits (DefaultJobLimits schedulingConfig)) (Containers s),
                  Tolerations := addDefaultTolerations (podTolerationsMap (Tolerations s))
                                   (DefaultJobTolerations schedulingConfig) (Tolerations s)\<rparr>))"

section \<open>enrichText\<close>

text \<open>
  \<^verbatim>\<open>strings.ReplaceAll(s, old, new)\<close> of the Go standard library: every non-overlapping
  occurrence of \<open>old\<close> in \<open>s\<close>, found from the left, is replaced by \<open>new\<close>; the scan goes
  on behind the occurrence. With an empty \<open>old\<close>, \<open>new\<close> is put in front of the string and
  behind every character (bytes here; the server never calls it so).
\<close>

fun ReplaceAll :: "string \<Rightarrow> string \<Rightarrow> string \<Rightarrow> string" where
  "ReplaceAll [] old new = (if old = [] then new else [])"
| "ReplaceAll (c # cs) old new =
     (if old = [] then new @ c # ReplaceAll cs old new
      else if prefix old (c # cs) then new @ ReplaceAll (drop (length old) (c # cs)) old new
      else c # ReplaceAll cs old new)"

text \<open>
  The raw string literal of the source, a blank, a backslash and the letter z, that
  stands in for an escaped \<^verbatim>\<open>{{JobId}}\<close> between the first and the last replacement.
\<close>

definition placeholder :: string where
  "placeholder = [CHR '' '', CHR 0x5C, CHR ''z'']"

text \<open>The three replacements the loop body of \<^verbatim>\<open>enrichText\<close> makes on one value.\<close>

definition enrichValue :: "string \<Rightarrow> string \<Rightarrow> string" where
  "enrichValue jobId v =
     ReplaceAll (ReplaceAll (ReplaceAll v ''{{JobId}}'' placeholder) ''{JobId}'' jobId)
       placeholder ''JobId''"

text \<open>
  \<^verbatim>\<open>for key, value := range labels { ...; labels[key] = ... }\<close>: every key present is
  visited once and gets its value rewritten; no key is added or removed.
\<close>

definition enrichText :: "(string \<rightharpoonup> string) \<Rightarrow> string \<Rightarrow> (string \<rightharpoonup> string)" where
  "enrichText labels jobId = (\<lambda>key. map_option (enrichValue jobId) (labels key))"

text \<open>
  A job id that cannot be mistaken for a part of the placeholder: it is not empty, has
  no blank, and starts with neither a backslash nor the letter z. A ULID, which is made
  of digits and letters and starts with a digit, is of this kind.
\<close>

definition clearOfPlaceholder :: "string \<Rightarrow> bool" where
  "clearOfPlaceholder jobId \<longleftrightarrow>
     jobId \<noteq> [] \<and> CHR '' '' \<notin> set jobId \<and> hd jobId \<noteq> CHR 0x5C \<and> hd jobId \<noteq> CHR ''z''"

section \<open>Principals and the permission checker\<close>

text \<open>
  Modelled from the spec: the type \<^verbatim>\<open>authorization.Principal\<close> is not among the sources.
  A principal has a name, groups, scopes and claims.
\<close>

record Principal =
  Principal_Name :: string
  Principal_Groups :: "string list"
  Principal_Scopes :: "string list"
  Principal_Claims :: "string list"

text \<open>
  The context of a request carries the principal and, if there is one, the deadline of
  the request, in nanoseconds.
\<close>

record Context =
  Context_Principal :: Principal
  Context_Deadline :: "int option"

text \<open>
  Modelled from the spec: \<^verbatim>\<open>authorization.GetPrincipal\<close> is not among the sources. It
  reads the principal of the request from the context.
\<close>

definition GetPrincipal :: "Context \<Rightarrow> Principal" where
  "GetPrincipal ctx = Context_Principal ctx"

text \<open>
  Modelled from the spec: \<^verbatim>\<open>Principal.GetName\<close> is not among the sources. It is the
  name of the principal.
\<close>

definition GetName :: "Principal \<Rightarrow> string" where
  "GetName princ = Principal_Name princ"

text \<open>
  Modelled from the spec: \<^verbatim>\<open>Principal.GetGroupNames\<close> is not among the sources. It is
  the groups of the principal, in some order.
\<close>

definition GetGroupNames :: "Principal \<Rightarrow> string list" where
  "GetGroupNames princ = Principal_Groups princ"

text \<open>
  Modelled from the spec: \<^verbatim>\<open>Principal.IsInGroup\<close> is not among the sources. It holds
  for the groups of the principal.
\<close>

definition IsInGroup :: "Principal \<Rightarrow> string \<Rightarrow> bool" where
  "IsInGroup princ grp \<longleftrightarrow> grp \<in> set (Principal_Groups princ)"

text \<open>
  Modelled from the spec: \<^verbatim>\<open>Principal.HasScope\<close> is not among the sources. It holds
  for the scopes of the principal.
\<close>

definition HasScope :: "Principal \<Rightarrow> string \<Rightarrow> bool" where
  "HasScope princ scope \<longleftrightarrow> scope \<in> set (Principal_Scopes princ)"

text \<open>
  Modelled from the spec: \<^verbatim>\<open>Principal.HasClaim\<close> is not among the sources. It holds
  for the claims of the principal.
\<close>

definition HasClaim :: "Principal \<Rightarrow> string \<Rightarrow> bool" where
  "HasClaim princ claim \<longleftrightarrow> claim \<in> set (Principal_Claims princ)"

text \<open>
  The global permissions the server asks for: the constants of package \<^verbatim>\<open>permissions\<close>
  that the sources name.
\<close>

datatype Permission =
    permissions_SubmitJobs | permissions_SubmitAnyJobs
  | permissions_CreateQueue | permissions_DeleteQueue
  | permissions_CancelJobs | permissions_CancelAnyJobs
  | permissions_ReprioritizeJobs | permissions_ReprioritizeAnyJobs
  | permissions_WatchEvents | permissions_WatchAllEvents

record PrincipalPermissionChecker =
  permissionGroupMap :: "Permission \<rightharpoonup> string list"
  permissionScopeMap :: "Permission \<rightharpoonup> string list"
  permissionClaimMap :: "Permission \<rightharpoonup> string list"

text \<open>The loop of \<^verbatim>\<open>hasPermission\<close> returns true at the first allowed value that passes.\<close>

definition hasPermission ::
  "Permission \<Rightarrow> (Permission \<rightharpoonup> string list) \<Rightarrow> (string \<Rightarrow> bool) \<Rightarrow> bool" where
  "hasPermission perm permMap assert =
     (case permMap perm of
        None \<Rightarrow> False
      | Some allowedValues \<Rightarrow> list_ex assert allowedValues)"

definition UserHasPermission :: "PrincipalPermissionChecker \<Rightarrow> Context \<Rightarrow> Permission \<Rightarrow> bool" where
  "UserHasPermission checker ctx perm =
     (let princ = GetPrincipal ctx
      in hasPermission perm (permissionScopeMap checker) (HasScope princ) \<or>
         hasPermission perm (permissionGroupMap checker) (IsInGroup princ) \<or>
         hasPermission perm (permissionClaimMap checker) (HasClaim princ))"

section \<open>Queues and their permissions (package \<^verbatim>\<open>pkg/client/queue\<close>)\<close>

datatype PermissionVerb =
  PermissionVerbSubmit | PermissionVerbCancel | PermissionVerbReprioritize | PermissionVerbWatch

datatype PermissionSubjectKind = PermissionSubjectKindUser | PermissionSubjectKindGroup

record PermissionSubject =
  Subject_Kind :: PermissionSubjectKind
  Subject_Name :: string

record Permissions =
  Subjects :: "PermissionSubject list"
  Verbs :: "PermissionVerb list"

record Queue =
  Queue_Name :: string
  PriorityFactor :: real
  Queue_Permissions :: "Permissions list"
  ResourceLimits :: "string \<rightharpoonup> real"

text \<open>
  Modelled from the spec: \<^verbatim>\<open>queue.NewPermissionSubjectsFromOwners\<close> is not among the
  sources. Owners become subjects of their kind, users first.
\<close>

definition NewPermissionSubjectsFromOwners :: "string list \<Rightarrow> string list \<Rightarrow> PermissionSubject list" where
  "NewPermissionSubjectsFromOwners users groups =
     map (\<lambda>user. \<lparr>Subject_Kind = PermissionSubjectKindUser, Subject_Name = user\<rparr>) users @
     map (\<lambda>grp. \<lparr>Subject_Kind = PermissionSubjectKindGroup, Subject_Name = grp\<rparr>) groups"

text \<open>
  Modelled from the spec: \<^verbatim>\<open>queue.AllPermissionVerbs\<close> is not among the sources. The
  verbs are submit, cancel, reprioritize and watch.
\<close>

definition AllPermissionVerbs :: "PermissionVerb list" where
  "AllPermissionVerbs =
     [PermissionVerbSubmit, PermissionVerbCancel, PermissionVerbReprioritize, PermissionVerbWatch]"

text \<open>
  Modelled from the spec: \<^verbatim>\<open>queue.NewPermissionsFromOwners\<close> is not among the sources.
  The binding made from owners has them as its subjects and holds every verb.
\<close>

definition NewPermissionsFromOwners :: "string list \<Rightarrow> string list \<Rightarrow> Permissions" where
  "NewPermissionsFromOwners users groups =
     \<lparr>Subjects = NewPermissionSubjectsFromOwners users groups, Verbs = AllPermissionVerbs\<rparr>"

text \<open>
  Modelled from the spec: \<^verbatim>\<open>Queue.HasPermission\<close> is not among the sources. A queue
  grants a verb to a subject when one of its bindings lists both the subject and the
  verb.
\<close>

definition HasPermission :: "Queue \<Rightarrow> PermissionSubject \<Rightarrow> PermissionVerb \<Rightarrow> bool" where
  "HasPermission q subject verb =
     list_ex (\<lambda>p. subject \<in> set (Subjects p) \<and> verb \<in> set (Verbs p)) (Queue_Permissions q)"

text \<open>The names of the user-kind subjects of a queue, binding by binding.\<close>

definition userOwners :: "Queue \<Rightarrow> string list" where
  "userOwners q =
     map Subject_Name
       (filter (\<lambda>s. Subject_Kind s = PermissionSubjectKindUser)
          (concat (map Subjects (Queue_Permissions q))))"

section \<open>Errors\<close>

text \<open>
  The gRPC codes the server returns. \<open>Unknown\<close> is what gRPC makes of an error that is
  not a status.
\<close>

datatype codes =
    OK | InvalidArgument | NotFound | AlreadyExists | PermissionDenied | FailedPrecondition
  | Aborted | Unavailable | Internal | DeadlineExceeded | Unknown

text \<open>
  Modelled from the spec: the type \<^verbatim>\<open>ErrNoPermission\<close> is not among the sources. A
  permission error names the principal and the refusals, one for each tier that refused:
  the global permission that is missing, or the queue and the verb it does not grant.
\<close>

datatype Refusal =
    GlobalRefusal Permission
  | QueueRefusal string PermissionVerb

record ErrNoPermission =
  ErrNoPermission_Principal :: string
  ErrNoPermission_Refusals :: "Refusal list"

text \<open>
  Modelled from the spec: \<^verbatim>\<open>MergePermissionErrors\<close> is not among the sources. The
  merged error keeps the refusals of both errors, in order.
\<close>

definition MergePermissionErrors :: "ErrNoPermission \<Rightarrow> ErrNoPermission \<Rightarrow> ErrNoPermission" where
  "MergePermissionErrors globalPermErr queuePermErr =
     \<lparr>ErrNoPermission_Principal = ErrNoPermission_Principal globalPermErr,
      ErrNoPermission_Refusals =
        ErrNoPermission_Refusals globalPermErr @ ErrNoPermission_Refusals queuePermErr\<rparr>"

text \<open>
  Go errors. A message is kept as its format string and its arguments, not rendered:
  \<^verbatim>\<open>status.Errorf(code, format, args...)\<close> is \<open>Status code format args\<close>,
  \<^verbatim>\<open>fmt.Errorf(format, args...)\<close> is \<open>Errorf format args\<close>, and with a \<^verbatim>\<open>%w\<close> verb it is
  \<open>Wrapf format args err\<close> for the wrapped \<open>err\<close>. Arguments that are neither strings,
  numbers nor errors (a list of jobs, the JSON of a request) are left out. \<open>Failure\<close> is
  any other error a collaborator returns; \<open>Panic\<close> is a run-time panic.
\<close>

datatype arg = S string | N nat | E err
and err =
    Status codes string "arg list"
  | NoPermission ErrNoPermission
  | ErrQueueNotFound string
  | ErrQueueAlreadyExists string
  | Errorf string "arg list"
  | Wrapf string "arg list" err
  | Failure string
  | Panic string

text \<open>\<^verbatim>\<open>errors.As\<close> follows the chain of wrapped errors.\<close>

fun asErrNoPermission :: "err \<Rightarrow> ErrNoPermission option" where
  "asErrNoPermission (NoPermission e) = Some e"
| "asErrNoPermission (Wrapf format args e) = asErrNoPermission e"
| "asErrNoPermission _ = None"

fun asErrQueueNotFound :: "err \<Rightarrow> string option" where
  "asErrQueueNotFound (ErrQueueNotFound name) = Some name"
| "asErrQueueNotFound (Wrapf format args e) = asErrQueueNotFound e"
| "asErrQueueNotFound _ = None"

text \<open>A panic is not an error value: no \<^verbatim>\<open>if err != nil\<close> catches it.\<close>

fun isPanic :: "err \<Rightarrow> bool" where
  "isPanic (Panic message) = True"
| "isPanic _ = False"


text \<open>
  Modelled from the spec: \<^verbatim>\<open>checkPermission\<close> is not among the sources. The global tier
  refuses exactly when the principal lacks the permission.
\<close>

definition checkPermission :: "PrincipalPermissionChecker \<Rightarrow> Context \<Rightarrow> Permission \<Rightarrow> err option" where
  "checkPermission p ctx permission =
     (if \<not> UserHasPermission p ctx permission
      then Some (NoPermission \<lparr>ErrNoPermission_Principal = GetName (GetPrincipal ctx),
                               ErrNoPermission_Refusals = [GlobalRefusal permission]\<rparr>)
      else None)"

text \<open>
  Modelled from the spec: \<^verbatim>\<open>checkQueuePermission\<close> is not among the sources. The queue
  tier refuses exactly when the queue grants the verb to no subject that matches the
  principal, by user name or by group membership. The call sites hand it a global
  permission as well, to which the spec gives no part in the decision. The test it makes
  comes first, on its own.
\<close>

definition queueGrants :: "Queue \<Rightarrow> Principal \<Rightarrow> PermissionVerb \<Rightarrow> bool" where
  "queueGrants q princ verb =
     list_ex (\<lambda>subject. HasPermission q subject verb)
       (NewPermissionSubjectsFromOwners [GetName princ] (GetGroupNames princ))"

text \<open>
  Modelled from the spec: \<^verbatim>\<open>checkQueuePermission\<close>, as described above.
\<close>

definition checkQueuePermission ::
  "PrincipalPermissionChecker \<Rightarrow> Context \<Rightarrow> Queue \<Rightarrow> Permission \<Rightarrow> PermissionVerb \<Rightarrow> err option" where
  "checkQueuePermission p ctx q globalPermission verb =
     (if queueGrants q (GetPrincipal ctx) verb then None
      else Some (NoPermission \<lparr>ErrNoPermission_Principal = GetName (GetPrincipal ctx),
                                ErrNoPermission_Refusals = [QueueRefusal (Queue_Name q) verb]\<rparr>))"

section \<open>Requests, jobs and results (package \<^verbatim>\<open>pkg/api\<close>)\<close>

text \<open>
  Of an ingress and a service configuration the server reads the ports only. Priorities
  and priority factors are 64-bit floats that are only copied; times are nanoseconds.
  A nil \<^verbatim>\<open>*v1.PodSpec\<close> is \<open>None\<close>, also as an element of \<^verbatim>\<open>pod_specs\<close>.
\<close>

record IngressConfig =
  Ingress_Ports :: "nat list"

record ServiceConfig =
  Service_Ports :: "nat list"

record JobSubmitRequestItem =
  Item_Priority :: real
  Item_Namespace :: string
  Item_ClientId :: string
  Item_Labels :: "string \<rightharpoonup> string"
  Item_Annotations :: "string \<rightharpoonup> string"
  Item_RequiredNodeLabels :: "string \<rightharpoonup> string"
  Item_PodSpec :: "PodSpec option"
  Item_PodSpecs :: "PodSpec option list"
  Item_Ingress :: "IngressConfig list"
  Item_Services :: "ServiceConfig list"

record JobSubmitRequest =
  Request_Queue :: string
  Request_JobSetId :: string
  JobRequestItems :: "JobSubmitRequestItem list"

record Job =
  Job_Id :: string
  Job_ClientId :: string
  Job_Queue :: string
  Job_JobSetId :: string
  Job_Namespace :: string
  Job_Labels :: "string \<rightharpoonup> string"
  Job_Annotations :: "string \<rightharpoonup> string"
  Job_RequiredNodeLabels :: "string \<rightharpoonup> string"
  Job_Ingress :: "IngressConfig list"
  Job_Services :: "ServiceConfig list"
  Job_Priority :: real
  Job_PodSpec :: "PodSpec option"
  Job_PodSpecs :: "PodSpec option list"
  Job_Created :: int
  Job_Owner :: string
  Job_QueueOwnershipUserGroups :: "string list"

record JobSubmitResponseItem =
  Response_JobId :: string
  Response_Error :: "err option"

record JobSubmitResponse =
  JobResponseItems :: "JobSubmitResponseItem list"

record JobCancelRequest =
  Cancel_JobId :: string
  Cancel_JobSetId :: string
  Cancel_Queue :: string

record CancellationResult =
  CancelledIds :: "string list"


record JobSetInfo =
  JobSetInfo_Name :: string
  QueuedJobs :: int
  LeasedJobs :: int

text \<open>
  Modelled from the spec: \<^verbatim>\<open>JobSubmitRequestItem.GetAllPodSpecs\<close> is not among the
  sources. An item carries either the single, deprecated \<^verbatim>\<open>pod_spec\<close> or the list
  \<^verbatim>\<open>pod_specs\<close>; the pod specs of an item are the single one when it is there, the list
  otherwise.
\<close>

definition GetAllPodSpecs :: "JobSubmitRequestItem \<Rightarrow> PodSpec option list" where
  "GetAllPodSpecs item =
     (case Item_PodSpec item of
        Some podSpec \<Rightarrow> [Some podSpec]
      | None \<Rightarrow> Item_PodSpecs item)"

section \<open>Collaborators\<close>

text \<open>What the job repository reports for one job of \<^verbatim>\<open>AddJobs\<close> (package \<^verbatim>\<open>repository\<close>).\<close>

record SubmitJobResult =
  Result_JobId :: string
  Result_Error :: "err option"
  DuplicateDetected :: bool

text \<open>
  Modelled from the spec: the event messages are not among the sources. An event carries
  the job or the result it is about and, where there is one, the name of the principal
  or the reason; time stamps are left out.
\<close>

datatype Event =
    JobSubmittedEvent Job
  | JobQueuedEvent Job
  | JobDuplicateFoundEvent SubmitJobResult
  | JobFailedEvent Job string "arg list"
  | JobCancellingEvent string Job
  | JobCancelledEvent string Job

typedecl ClusterSchedulingInfoReport

text \<open>
  A call of a collaborator, with its arguments. The calls a handler has made so far, in
  order, are the state it threads through: every call is appended to them.
\<close>

datatype call =
    QueueRepository_GetQueue string
  | QueueRepository_CreateQueue Queue
  | QueueRepository_DeleteQueue string
  | JobRepository_GetQueueActiveJobSets string
  | JobRepository_AddJobs "Job list"
  | JobRepository_GetExistingJobsByIds "string list"
  | JobRepository_GetActiveJobIds string string
  | JobRepository_DeleteJobs "Job list"
  | SchedulingInfoRepository_GetClusterSchedulingInfo
  | EventStore_ReportEvents "Event list"

text \<open>
  The collaborators are Go interfaces whose implementations are not among the sources.
  Each method is a parameter: what it returns to a call, given the calls made before.
  That covers every deterministic implementation, with any state of its own and any
  failure. \<^verbatim>\<open>DeleteJobs\<close> returns a Go map from jobs to errors; it is given as the list of
  its entries in the order the range over it visits them.
\<close>

record QueueRepository =
  GetQueue_reply :: "call list \<Rightarrow> string \<Rightarrow> err + Queue"
  CreateQueue_reply :: "call list \<Rightarrow> Queue \<Rightarrow> err option"
  DeleteQueue_reply :: "call list \<Rightarrow> string \<Rightarrow> err option"

record JobRepository =
  GetQueueActiveJobSets_reply :: "call list \<Rightarrow> string \<Rightarrow> err + JobSetInfo list"
  AddJobs_reply :: "call list \<Rightarrow> Job list \<Rightarrow> err + SubmitJobResult list"
  GetExistingJobsByIds_reply :: "call list \<Rightarrow> string list \<Rightarrow> err + Job list"
  GetActiveJobIds_reply :: "call list \<Rightarrow> string \<Rightarrow> string \<Rightarrow> err + string list"
  DeleteJobs_reply :: "call list \<Rightarrow> Job list \<Rightarrow> err + (Job \<times> err option) list"

record EventStore =
  ReportEvents_reply :: "call list \<Rightarrow> Event list \<Rightarrow> err option"

record SchedulingInfoRepository =
  GetClusterSchedulingInfo_reply :: "call list \<Rightarrow> err + (string \<rightharpoonup> ClusterSchedulingInfoReport)"

record QueueManagementConfig =
  AutoCreateQueues :: bool
  DefaultPriorityFactor :: real

record SubmitServer =
  permissions :: PrincipalPermissionChecker
  jobRepository :: JobRepository
  queueRepository :: QueueRepository
  eventStore :: EventStore
  schedulingInfoRepository :: SchedulingInfoRepository
  cancelJobsBatchSize :: nat
  queueManagementConfig :: QueueManagementConfig
  schedulingConfig :: SchedulingConfig

text \<open>
  Functions of other packages that the server calls and that are not among the sources,
  taken as parameters: the validation of a pod spec against the scheduling
  configuration, the check that jobs fit on some cluster, the id generator (the id its
  \<open>k\<close>-th call in a request returns) and the clock (what it shows when read for the
  \<open>k\<close>-th time after the calls made so far).
\<close>

record Packages =
  validation_ValidatePodSpec :: "PodSpec option \<Rightarrow> SchedulingConfig \<Rightarrow> err option"
  validateJobsCanBeScheduled ::
    "Job list \<Rightarrow> (string \<rightharpoonup> ClusterSchedulingInfoReport) \<Rightarrow> err option"
  util_NewULID :: "nat \<Rightarrow> string"
  time_Now :: "call list \<Rightarrow> nat \<Rightarrow> int"

text \<open>The calls of the collaborators: the reply, and the call appended to the calls made.\<close>

definition queueRepository_GetQueue ::
  "SubmitServer \<Rightarrow> string \<Rightarrow> call list \<Rightarrow> (err + Queue) \<times> call list" where
  "queueRepository_GetQueue server name tr =
     (GetQueue_reply (queueRepository server) tr name, tr @ [QueueRepository_GetQueue name])"

definition queueRepository_CreateQueue ::
  "SubmitServer \<Rightarrow> Queue \<Rightarrow> call list \<Rightarrow> err option \<times> call list" where
  "queueRepository_CreateQueue server q tr =
     (CreateQueue_reply (queueRepository server) tr q, tr @ [QueueRepository_CreateQueue q])"



definition jobRepository_AddJobs ::
  "SubmitServer \<Rightarrow> Job list \<Rightarrow> call list \<Rightarrow> (err + SubmitJobResult list) \<times> call list" where
  "jobRepository_AddJobs server jobs tr =
     (AddJobs_reply (jobRepository server) tr jobs, tr @ [JobRepository_AddJobs jobs])"

definition jobRepository_GetExistingJobsByIds ::
  "SubmitServer \<Rightarrow> string list \<Rightarrow> call list \<Rightarrow> (err + Job list) \<times> call list" where
  "jobRepository_GetExistingJobsByIds server ids tr =
     (GetExistingJobsByIds_reply (jobRepository server) tr ids,
      tr @ [JobRepository_GetExistingJobsByIds ids])"

definition jobRepository_GetActiveJobIds ::
  "SubmitServer \<Rightarrow> string \<Rightarrow> string \<Rightarrow> call list \<Rightarrow> (err + string list) \<times> call list" where
  "jobRepository_GetActiveJobIds server queue jobSetId tr =
     (GetActiveJobIds_reply (jobRepository server) tr queue jobSetId,
      tr @ [JobRepository_GetActiveJobIds queue jobSetId])"

definition jobRepository_DeleteJobs ::
  "SubmitServer \<Rightarrow> Job list \<Rightarrow> call list \<Rightarrow> (err + (Job \<times> err option) list) \<times> call list" where
  "jobRepository_DeleteJobs server jobs tr =
     (DeleteJobs_reply (jobRepository server) tr jobs, tr @ [JobRepository_DeleteJobs jobs])"

definition schedulingInfoRepository_GetClusterSchedulingInfo ::
  "SubmitServer \<Rightarrow> call list \<Rightarrow> (err + (string \<rightharpoonup> ClusterSchedulingInfoReport)) \<times> call list" where
  "schedulingInfoRepository_GetClusterSchedulingInfo server tr =
     (GetClusterSchedulingInfo_reply (schedulingInfoRepository server) tr,
      tr @ [SchedulingInfoRepository_GetClusterSchedulingInfo])"

definition eventStore_ReportEvents ::
  "SubmitServer \<Rightarrow> Event list \<Rightarrow> call list \<Rightarrow> err option \<times> call list" where
  "eventStore_ReportEvents server events tr =
     (ReportEvents_reply (eventStore server) tr events, tr @ [EventStore_ReportEvents events])"

section \<open>The submit server: queues\<close>

text \<open>
  A handler returns what the Go method returns, and the calls made. A method that
  returns \<^verbatim>\<open>(*T, error)\<close> with both possibly set is a pair of options.
\<close>

definition getQueueOrCreate ::
  "SubmitServer \<Rightarrow> Context \<Rightarrow> string \<Rightarrow> call list \<Rightarrow> (err + Queue) \<times> call list" where
  "getQueueOrCreate server ctx queueName tr =
     (case queueRepository_GetQueue server queueName tr of
        (Inr q, tr1) \<Rightarrow> (Inr q, tr1)
      | (Inl e, tr1) \<Rightarrow>
          (case asErrQueueNotFound e of
             Some expected \<Rightarrow>
               if \<not> AutoCreateQueues (queueManagementConfig server) \<or>
                  \<not> UserHasPermission (permissions server) ctx permissions_SubmitAnyJobs
               then (Inl (Status NotFound ''Queue %q not found'' [S queueName]), tr1)
               else
                 (let princ = GetPrincipal ctx;
                      q = \<lparr>Queue_Name = queueName,
                           PriorityFactor = DefaultPriorityFactor (queueManagementConfig server),
                           Queue_Permissions =
                             [NewPermissionsFromOwners [GetName princ] (GetGroupNames princ)],
                           ResourceLimits = Map.empty\<rparr>
                  in case queueRepository_CreateQueue server q tr1 of
                       (Some err, tr2) \<Rightarrow> (Inl (Status Aborted ''%s'' [E e]), tr2)
                     | (None, tr2) \<Rightarrow> (Inr q, tr2))
           | None \<Rightarrow>
               (Inl (Status Unavailable ''Could not load queue %q: %s'' [S queueName, E e]), tr1)))"


section \<open>The submit server: building jobs\<close>

text \<open>\<^verbatim>\<open>validateIngressConfigs\<close>: the inner loop over the ports of one ingress configuration.\<close>

fun checkPorts :: "nat \<Rightarrow> nat list \<Rightarrow> (nat \<rightharpoonup> nat) \<Rightarrow> err + (nat \<rightharpoonup> nat)" where
  "checkPorts index [] existingPortSet = Inr existingPortSet"
| "checkPorts index (port # ports) existingPortSet =
     (case existingPortSet port of
        Some existingIndex \<Rightarrow>
          Inl (Errorf ''port %d has two ingress configurations, specified in ingress configs with indexes %d, %d. Each port should at maximum have one ingress configuration''
                 [N port, N existingIndex, N index])
      | None \<Rightarrow> checkPorts index ports (existingPortSet(port \<mapsto> index)))"

fun validateIngressConfigsLoop ::
  "nat \<Rightarrow> IngressConfig list \<Rightarrow> (nat \<rightharpoonup> nat) \<Rightarrow> err option" where
  "validateIngressConfigsLoop index [] existingPortSet = None"
| "validateIngressConfigsLoop index (portConfig # rest) existingPortSet =
     (if length (Ingress_Ports portConfig) = 0
      then Some (Errorf ''ingress contains zero ports. Each ingress should have at least one port'' [])
      else case checkPorts index (Ingress_Ports portConfig) existingPortSet of
             Inl e \<Rightarrow> Some e
           | Inr existingPortSet' \<Rightarrow> validateIngressConfigsLoop (Suc index) rest existingPortSet')"

definition validateIngressConfigs :: "JobSubmitRequestItem \<Rightarrow> err option" where
  "validateIngressConfigs item = validateIngressConfigsLoop 0 (Item_Ingress item) Map.empty"

definition ValidateJobSubmitRequestItem :: "JobSubmitRequestItem \<Rightarrow> err option" where
  "ValidateJobSubmitRequestItem request = validateIngressConfigs request"

text \<open>
  The loop over \<^verbatim>\<open>item.RequiredNodeLabels\<close>. It runs only when there are labels; then a
  nil pod spec is dereferenced, and a nil node selector is replaced by an empty one.
\<close>

definition mergeRequiredNodeLabels ::
  "(string \<rightharpoonup> string) \<Rightarrow> PodSpec option \<Rightarrow> err + PodSpec option" where
  "mergeRequiredNodeLabels labels podSpec =
     (if labels = Map.empty then Inr podSpec
      else case podSpec of
             None \<Rightarrow> Inl (Panic ''invalid memory address or nil pointer dereference'')
           | Some s \<Rightarrow>
               Inr (Some (s\<lparr>NodeSelector :=
                     Some (\<lambda>k. case labels k of
                                 Some v \<Rightarrow> Some v
                               | None \<Rightarrow> (case NodeSelector s of None \<Rightarrow> None | Some sel \<Rightarrow> sel k))\<rparr>)))"

text \<open>
  The loop over the pod specs of the \<open>i\<close>-th item, from the \<open>j\<close>-th on. The source
  changes the pod specs in place; the loop returns them as they are afterwards.
\<close>

fun podSpecsLoop ::
  "Packages \<Rightarrow> SubmitServer \<Rightarrow> JobSubmitRequest \<Rightarrow> JobSubmitRequestItem \<Rightarrow> nat \<Rightarrow> nat \<Rightarrow>
     PodSpec option list \<Rightarrow> err + PodSpec option list" where
  "podSpecsLoop pkg server request item i j [] = Inr []"
| "podSpecsLoop pkg server request item i j (podSpec # rest) =
     (let filled = (case podSpec of
                      None \<Rightarrow> None
                    | Some s \<Rightarrow> Some (s\<lparr>Containers := fillContainerRequestsAndLimits (Containers s)\<rparr>));
          defaulted = applyDefaultsToPodSpec (schedulingConfig server) filled
      in case validation_ValidatePodSpec pkg defaulted (schedulingConfig server) of
           Some err \<Rightarrow>
             Inl (Wrapf ''[createJobs] error validating the %d-th pod pf the %d-th job of job set %s: %w''
                    [N j, N i, S (Request_JobSetId request)] err)
         | None \<Rightarrow>
             (case mergeRequiredNodeLabels (Item_RequiredNodeLabels item) defaulted of
                Inl e \<Rightarrow> Inl e
              | Inr merged \<Rightarrow>
                  (case podSpecsLoop pkg server request item i (Suc j) rest of
                     Inl e \<Rightarrow> Inl e
                   | Inr specs \<Rightarrow> Inr (merged # specs))))"

text \<open>
  The job that \<^verbatim>\<open>createJobsObjects\<close> makes of an item: the labels and annotations after
  \<^verbatim>\<open>enrichText\<close>, and the pod specs as the loop over them left them (the source changes
  them in place, and the job points to them).
\<close>

definition newJob ::
  "JobSubmitRequest \<Rightarrow> string \<Rightarrow> string list \<Rightarrow> JobSubmitRequestItem \<Rightarrow> string \<Rightarrow> string \<Rightarrow> int \<Rightarrow>
     PodSpec option list \<Rightarrow> Job" where
  "newJob request owner ownershipGroups item namespace jobId created podSpecs =
     \<lparr>Job_Id = jobId,
      Job_ClientId = Item_ClientId item,
      Job_Queue = Request_Queue request,
      Job_JobSetId = Request_JobSetId request,
      Job_Namespace = namespace,
      Job_Labels = enrichText (Item_Labels item) jobId,
      Job_Annotations = enrichText (Item_Annotations item) jobId,
      Job_RequiredNodeLabels = Item_RequiredNodeLabels item,
      Job_Ingress = Item_Ingress item,
      Job_Services = Item_Services item,
      Job_Priority = Item_Priority item,
      Job_PodSpec = (case Item_PodSpec item of
                       None \<Rightarrow> None
                     | Some s \<Rightarrow> (case podSpecs of [] \<Rightarrow> None | podSpec # rest \<Rightarrow> podSpec)),
      Job_PodSpecs = (case Item_PodSpec item of
                        None \<Rightarrow> podSpecs
                      | Some s \<Rightarrow> Item_PodSpecs item),
      Job_Created = created,
      Job_Owner = owner,
      Job_QueueOwnershipUserGroups = ownershipGroups\<rparr>"

text \<open>
  The body of the loop over the items, for the \<open>i\<close>-th item. The generator of ids and the
  clock are called once for each item that gets this far, so the \<open>i\<close>-th item gets the
  result of their \<open>i\<close>-th call.
\<close>

definition createJobObject ::
  "Packages \<Rightarrow> SubmitServer \<Rightarrow> JobSubmitRequest \<Rightarrow> string \<Rightarrow> string list \<Rightarrow>
     (nat \<Rightarrow> int) \<Rightarrow> (nat \<Rightarrow> string) \<Rightarrow> nat \<Rightarrow> JobSubmitRequestItem \<Rightarrow> err + Job" where
  "createJobObject pkg server request owner ownershipGroups getTime getUlid i item =
     (if Item_PodSpec item \<noteq> None \<and> length (Item_PodSpecs item) > 0
      then Inl (Errorf ''[createJobs] job %d in job set %s contains both podSpec and podSpecs, but may only contain either''
                  [N i, S (Request_JobSetId request)])
      else if length (GetAllPodSpecs item) = 0
      then Inl (Errorf ''[createJobs] job %d in job set %s contains no podSpec or podSpecs''
                  [N i, S (Request_JobSetId request)])
      else case ValidateJobSubmitRequestItem item of
             Some err \<Rightarrow>
               Inl (Wrapf ''[createJobs] error validating the %d-th job of job set %s: %w''
                      [N i, S (Request_JobSetId request)] err)
           | None \<Rightarrow>
               (let namespace = (if Item_Namespace item = '''' then ''default'' else Item_Namespace item)
                in case podSpecsLoop pkg server request item i 0 (GetAllPodSpecs item) of
                     Inl e \<Rightarrow> Inl e
                   | Inr podSpecs \<Rightarrow>
                       (let jobId = getUlid i
                        in Inr (newJob request owner ownershipGroups item namespace jobId
                                  (getTime i) podSpecs))))"

fun createJobsLoop ::
  "Packages \<Rightarrow> SubmitServer \<Rightarrow> JobSubmitRequest \<Rightarrow> string \<Rightarrow> string list \<Rightarrow>
     (nat \<Rightarrow> int) \<Rightarrow> (nat \<Rightarrow> string) \<Rightarrow> nat \<Rightarrow> JobSubmitRequestItem list \<Rightarrow> Job list \<Rightarrow>
     err + Job list" where
  "createJobsLoop pkg server request owner ownershipGroups getTime getUlid i [] jobs = Inr jobs"
| "createJobsLoop pkg server request owner ownershipGroups getTime getUlid i (item # items) jobs =
     (case createJobObject pkg server request owner ownershipGroups getTime getUlid i item of
        Inl e \<Rightarrow> Inl e
      | Inr j \<Rightarrow>
          createJobsLoop pkg server request owner ownershipGroups getTime getUlid (Suc i) items
            (jobs @ [j]))"

definition createJobsObjects ::
  "Packages \<Rightarrow> SubmitServer \<Rightarrow> JobSubmitRequest \<Rightarrow> string \<Rightarrow> string list \<Rightarrow>
     (nat \<Rightarrow> int) \<Rightarrow> (nat \<Rightarrow> string) \<Rightarrow> err + Job list" where
  "createJobsObjects pkg server request owner ownershipGroups getTime getUlid =
     (if Request_JobSetId request = '''' then Inl (Errorf ''[createJobs] job set not specified'' [])
      else if Request_Queue request = '''' then Inl (Errorf ''[createJobs] queue not specified'' [])
      else createJobsLoop pkg server request owner ownershipGroups getTime getUlid 0
             (JobRequestItems request) [])"

definition createJobs ::
  "Packages \<Rightarrow> SubmitServer \<Rightarrow> JobSubmitRequest \<Rightarrow> string \<Rightarrow> string list \<Rightarrow> call list \<Rightarrow>
     err + Job list" where
  "createJobs pkg server request owner ownershipGroups tr =
     createJobsObjects pkg server request owner ownershipGroups (time_Now pkg tr) (util_NewULID pkg)"

section \<open>The submit server: SubmitJobs\<close>

text \<open>
  A failure to report: the job and the reason, which is kept as a format and its
  arguments, like the messages of the errors.
\<close>

record jobFailure =
  failure_job :: Job
  failure_reason :: string
  failure_args :: "arg list"

definition createJobFailuresWithReason :: "Job list \<Rightarrow> string \<Rightarrow> arg list \<Rightarrow> jobFailure list" where
  "createJobFailuresWithReason jobs reason args =
     map (\<lambda>job. \<lparr>failure_job = job, failure_reason = reason, failure_args = args\<rparr>) jobs"

text \<open>
  Modelled from the spec: \<^verbatim>\<open>reportSubmitted\<close> is not among the sources. It hands the
  event store a submitted event for every job, in one call.
\<close>

definition reportSubmitted :: "SubmitServer \<Rightarrow> Job list \<Rightarrow> call list \<Rightarrow> err option \<times> call list" where
  "reportSubmitted server jobs tr = eventStore_ReportEvents server (map JobSubmittedEvent jobs) tr"

text \<open>
  Modelled from the spec: \<^verbatim>\<open>reportQueued\<close> is not among the sources. It hands the
  event store a queued event for every job, in one call.
\<close>

definition reportQueued :: "SubmitServer \<Rightarrow> Job list \<Rightarrow> call list \<Rightarrow> err option \<times> call list" where
  "reportQueued server jobs tr = eventStore_ReportEvents server (map JobQueuedEvent jobs) tr"

text \<open>
  Modelled from the spec: \<^verbatim>\<open>reportDuplicateDetected\<close> is not among the sources. It hands the
  event store a duplicate-found event for every result, in one call.
\<close>

definition reportDuplicateDetected ::
  "SubmitServer \<Rightarrow> SubmitJobResult list \<Rightarrow> call list \<Rightarrow> err option \<times> call list" where
  "reportDuplicateDetected server results tr =
     eventStore_ReportEvents server (map JobDuplicateFoundEvent results) tr"

text \<open>
  Modelled from the spec: \<^verbatim>\<open>reportFailed\<close> is not among the sources. It hands the
  event store a failed event for every failure, in one call.
\<close>

definition reportFailed ::
  "SubmitServer \<Rightarrow> string \<Rightarrow> jobFailure list \<Rightarrow> call list \<Rightarrow> err option \<times> call list" where
  "reportFailed server clusterId jobFailures tr =
     eventStore_ReportEvents server
       (map (\<lambda>f. JobFailedEvent (failure_job f) (failure_reason f) (failure_args f)) jobFailures) tr"

text \<open>
  Modelled from the spec: \<^verbatim>\<open>reportJobsCancelling\<close> is not among the sources. It hands the
  event store a cancelling event for every job, with the name of the requestor, in one call.
\<close>

definition reportJobsCancelling ::
  "SubmitServer \<Rightarrow> string \<Rightarrow> Job list \<Rightarrow> call list \<Rightarrow> err option \<times> call list" where
  "reportJobsCancelling server requestor jobs tr =
     eventStore_ReportEvents server (map (JobCancellingEvent requestor) jobs) tr"

text \<open>
  Modelled from the spec: \<^verbatim>\<open>reportJobsCancelled\<close> is not among the sources. It hands the
  event store a cancelled event for every job, with the name of the requestor, in one call.
\<close>

definition reportJobsCancelled ::
  "SubmitServer \<Rightarrow> string \<Rightarrow> Job list \<Rightarrow> call list \<Rightarrow> err option \<times> call list" where
  "reportJobsCancelled server requestor jobs tr =
     eventStore_ReportEvents server (map (JobCancelledEvent requestor) jobs) tr"

text \<open>
  Lines 196 to 209: the two tiers of the permission check of \<^verbatim>\<open>SubmitJobs\<close>. The result
  is the error the handler returns there, if it returns.
\<close>

definition SubmitJobs_checkPermissions ::
  "SubmitServer \<Rightarrow> Context \<Rightarrow> JobSubmitRequest \<Rightarrow> Queue \<Rightarrow> err option" where
  "SubmitJobs_checkPermissions server ctx req q =
     (case checkPermission (permissions server) ctx permissions_SubmitAnyJobs of
        None \<Rightarrow> None
      | Some err \<Rightarrow>
          (case asErrNoPermission err of
             Some globalPermErr \<Rightarrow>
               (case checkQueuePermission (permissions server) ctx q permissions_SubmitJobs
                       PermissionVerbSubmit of
                  None \<Rightarrow> None
                | Some err' \<Rightarrow>
                    (case asErrNoPermission err' of
                       Some queuePermErr \<Rightarrow>
                         Some (Status PermissionDenied
                                 ''[SubmitJobs] error submitting job in queue %s: %s''
                                 [S (Request_Queue req),
                                  E (NoPermission (MergePermissionErrors globalPermErr queuePermErr))])
                     | None \<Rightarrow>
                         Some (Status Unavailable ''[SubmitJobs] error checking permissions: %s''
                                 [E err'])))
           | None \<Rightarrow>
               Some (Status Unavailable ''[SubmitJobs] error checking permissions: %s'' [E err])))"

text \<open>Lines 211 to 223: the groups of the principal through which it may submit.\<close>

definition SubmitJobs_ownershipGroups :: "Context \<Rightarrow> Queue \<Rightarrow> string list" where
  "SubmitJobs_ownershipGroups ctx q =
     (let princ = GetPrincipal ctx;
          principalSubject = \<lparr>Subject_Kind = PermissionSubjectKindUser, Subject_Name = GetName princ\<rparr>
      in if \<not> HasPermission q principalSubject PermissionVerbSubmit
         then map Subject_Name
                (filter (\<lambda>subject. HasPermission q subject PermissionVerbSubmit)
                   (NewPermissionSubjectsFromOwners [] (GetGroupNames princ)))
         else [])"

text \<open>
  The loop over the results of \<^verbatim>\<open>AddJobs\<close>, from the \<open>i\<close>-th on. Reading \<^verbatim>\<open>jobs[i]\<close>
  beyond the end of the jobs panics.
\<close>

record partition =
  part_items :: "JobSubmitResponseItem list"
  part_created :: "Job list"
  part_failures :: "jobFailure list"
  part_doubles :: "SubmitJobResult list"

fun partitionResults ::
  "Job list \<Rightarrow> nat \<Rightarrow> SubmitJobResult list \<Rightarrow> partition \<Rightarrow> err + partition" where
  "partitionResults jobs i [] part = Inr part"
| "partitionResults jobs i (submissionResult # rest) part =
     (case Result_Error submissionResult of
        Some e \<Rightarrow>
          if i < length jobs
          then partitionResults jobs (Suc i) rest
                 (part\<lparr>part_failures := part_failures part @
                          [\<lparr>failure_job = jobs ! i,
                            failure_reason = ''Failed to save job in Armada: %s'',
                            failure_args = [E e]\<rparr>],
                        part_items := part_items part @
                          [\<lparr>Response_JobId = Result_JobId submissionResult, Response_Error = Some e\<rparr>]\<rparr>)
          else Inl (Panic ''index out of range'')
      | None \<Rightarrow>
          if DuplicateDetected submissionResult
          then partitionResults jobs (Suc i) rest
                 (part\<lparr>part_doubles := part_doubles part @ [submissionResult],
                        part_items := part_items part @
                          [\<lparr>Response_JobId = Result_JobId submissionResult, Response_Error = None\<rparr>]\<rparr>)
          else if i < length jobs
          then partitionResults jobs (Suc i) rest
                 (part\<lparr>part_created := part_created part @ [jobs ! i],
                        part_items := part_items part @
                          [\<lparr>Response_JobId = Result_JobId submissionResult, Response_Error = None\<rparr>]\<rparr>)
          else Inl (Panic ''index out of range''))"

text \<open>Lines 260 to 306: the response and the events after the jobs were written.\<close>

definition SubmitJobs_respond ::
  "SubmitServer \<Rightarrow> Job list \<Rightarrow> SubmitJobResult list \<Rightarrow> call list \<Rightarrow>
     JobSubmitResponse option \<times> err option \<times> call list" where
  "SubmitJobs_respond server jobs submissionResults tr =
     (case partitionResults jobs 0 submissionResults
             \<lparr>part_items = [], part_created = [], part_failures = [], part_doubles = []\<rparr> of
        Inl p \<Rightarrow> (None, Some p, tr)
      | Inr part \<Rightarrow>
          (let result = \<lparr>JobResponseItems = part_items part\<rparr>
           in case reportFailed server '''' (part_failures part) tr of
                (Some err, tr1) \<Rightarrow>
                  (Some result,
                   Some (Status Internal ''[SubmitJobs] error reporting failed jobs: %s'' [E err]), tr1)
              | (None, tr1) \<Rightarrow>
                  (case reportDuplicateDetected server (part_doubles part) tr1 of
                     (Some err, tr2) \<Rightarrow>
                       (Some result,
                        Some (Status Internal ''[SubmitJobs] error reporting duplicate jobs: %s'' [E err]),
                        tr2)
                   | (None, tr2) \<Rightarrow>
                       (case reportQueued server (part_created part) tr2 of
                          (Some err, tr3) \<Rightarrow>
                            (Some result,
                             Some (Status Internal ''[SubmitJobs] error reporting queued jobs: %s'' [E err]),
                             tr3)
                        | (None, tr3) \<Rightarrow>
                            if length (part_failures part) > 0
                            then (Some result,
                                  Some (Status Internal
                                          ''[SubmitJobs] error submitting some or all jobs: %s''
                                          [S ''%!s(<nil>)'']),
                                  tr3)
                            else (Some result, None, tr3)))))"

text \<open>
  Lines 231 to 258: the feasibility check, the submitted events and the write. Where
  \<^verbatim>\<open>AddJobs\<close> fails, the reason of the failure events is formatted from \<open>e\<close>, the error of
  \<^verbatim>\<open>createJobs\<close>, which is nil there.
\<close>

definition SubmitJobs_store ::
  "Packages \<Rightarrow> SubmitServer \<Rightarrow> string \<Rightarrow> Job list \<Rightarrow> call list \<Rightarrow>
     JobSubmitResponse option \<times> err option \<times> call list" where
  "SubmitJobs_store pkg server principalName jobs tr =
     (case schedulingInfoRepository_GetClusterSchedulingInfo server tr of
        (Inl err, tr1) \<Rightarrow>
          (None, Some (Status InvalidArgument ''[SubmitJobs] error getting scheduling info: %s'' [E err]),
           tr1)
      | (Inr allClusterSchedulingInfo, tr1) \<Rightarrow>
          (case validateJobsCanBeScheduled pkg jobs allClusterSchedulingInfo of
             Some err \<Rightarrow>
               (None,
                Some (Status InvalidArgument ''[SubmitJobs] error submitting jobs for user %s: %s''
                        [S principalName, E err]),
                tr1)
           | None \<Rightarrow>
               (case reportSubmitted server jobs tr1 of
                  (Some err, tr2) \<Rightarrow>
                    (None,
                     Some (Status Aborted ''[SubmitJobs] error getting submitted report: %s'' [E err]),
                     tr2)
                | (None, tr2) \<Rightarrow>
                    (case jobRepository_AddJobs server jobs tr2 of
                       (Inl err, tr3) \<Rightarrow>
                         (case reportFailed server ''''
                                 (createJobFailuresWithReason jobs ''Failed to save job in Armada: %s''
                                    [S ''%!s(<nil>)'']) tr3 of
                            (Some reportErr, tr4) \<Rightarrow>
                              (None,
                               Some (Status Internal ''[SubmitJobs] error reporting failure event: %v''
                                       [E reportErr]),
                               tr4)
                          | (None, tr4) \<Rightarrow>
                              (None,
                               Some (Status Aborted ''[SubmitJobs] error saving jobs in Armada: %s'' [E err]),
                               tr4))
                     | (Inr submissionResults, tr3) \<Rightarrow>
                         SubmitJobs_respond server jobs submissionResults tr3))))"

text \<open>
  \<^verbatim>\<open>SubmitJobs\<close>. The message of the error for the jobs that could not be made has the
  request, rendered as JSON, as its first argument; that argument is left out here. A
  nil pointer that \<^verbatim>\<open>createJobs\<close> dereferences ends the handler where it stands.
\<close>

definition SubmitJobs ::
  "Packages \<Rightarrow> SubmitServer \<Rightarrow> Context \<Rightarrow> JobSubmitRequest \<Rightarrow> call list \<Rightarrow>
     JobSubmitResponse option \<times> err option \<times> call list" where
  "SubmitJobs pkg server ctx req tr =
     (let princ = GetPrincipal ctx
      in case getQueueOrCreate server ctx (Request_Queue req) tr of
           (Inl err, tr1) \<Rightarrow> (None, Some err, tr1)
         | (Inr q, tr1) \<Rightarrow>
             (case SubmitJobs_checkPermissions server ctx req q of
                Some err \<Rightarrow> (None, Some err, tr1)
              | None \<Rightarrow>
                  (let groups = SubmitJobs_ownershipGroups ctx q
                   in case createJobs pkg server req (GetName princ) groups tr1 of
                        Inl e \<Rightarrow>
                          if isPanic e then (None, Some e, tr1)
                          else (None,
                                Some (Status InvalidArgument
                                        ''[SubmitJobs] Error submitting job %s for user %s: %v''
                                        [S (GetName princ), E e]),
                                tr1)
                      | Inr jobs \<Rightarrow> SubmitJobs_store pkg server (GetName princ) jobs tr1)))"

section \<open>The submit server: cancelling jobs\<close>

text \<open>
  The loop of \<^verbatim>\<open>checkCancelPerms\<close> and of \<^verbatim>\<open>checkReprioritizePerms\<close> over the queue names.
  The two differ in the permissions and the verb only. The names are the keys of a Go
  map, which a range visits in no fixed order; here they are visited in the order in
  which the jobs mention them first.
\<close>

fun checkQueuePermsLoop ::
  "SubmitServer \<Rightarrow> Context \<Rightarrow> Permission \<Rightarrow> Permission \<Rightarrow> PermissionVerb \<Rightarrow> string list \<Rightarrow>
     call list \<Rightarrow> err option \<times> call list" where
  "checkQueuePermsLoop server ctx anyPermission permission verb [] tr = (None, tr)"
| "checkQueuePermsLoop server ctx anyPermission permission verb (queueName # rest) tr =
     (case queueRepository_GetQueue server queueName tr of
        (Inl err, tr1) \<Rightarrow> (Some err, tr1)
      | (Inr q, tr1) \<Rightarrow>
          (case checkPermission (permissions server) ctx anyPermission of
             None \<Rightarrow> checkQueuePermsLoop server ctx anyPermission permission verb rest tr1
           | Some err \<Rightarrow>
               (case asErrNoPermission err of
                  Some globalPermErr \<Rightarrow>
                    (case checkQueuePermission (permissions server) ctx q permission verb of
                       None \<Rightarrow> checkQueuePermsLoop server ctx anyPermission permission verb rest tr1
                     | Some err' \<Rightarrow>
                         (case asErrNoPermission err' of
                            Some queuePermErr \<Rightarrow>
                              (Some (NoPermission (MergePermissionErrors globalPermErr queuePermErr)),
                               tr1)
                          | None \<Rightarrow> (Some err', tr1)))
                | None \<Rightarrow> (Some err, tr1))))"

definition checkCancelPerms ::
  "SubmitServer \<Rightarrow> Context \<Rightarrow> Job list \<Rightarrow> call list \<Rightarrow> err option \<times> call list" where
  "checkCancelPerms server ctx jobs tr =
     checkQueuePermsLoop server ctx permissions_CancelAnyJobs permissions_CancelJobs
       PermissionVerbCancel (remdups (map Job_Queue jobs)) tr"


text \<open>
  \<^verbatim>\<open>cancelJobs\<close>. The jobs that count as cancelled are those for which \<^verbatim>\<open>DeleteJobs\<close>
  reports no error, in the order the range over its result visits them.
\<close>

definition cancelJobs ::
  "SubmitServer \<Rightarrow> Context \<Rightarrow> Job list \<Rightarrow> call list \<Rightarrow> (err + CancellationResult) \<times> call list" where
  "cancelJobs server ctx jobs tr =
     (let princ = GetPrincipal ctx
      in case checkCancelPerms server ctx jobs tr of
           (Some err, tr1) \<Rightarrow> (Inl err, tr1)
         | (None, tr1) \<Rightarrow>
             (case reportJobsCancelling server (GetName princ) jobs tr1 of
                (Some err, tr2) \<Rightarrow>
                  (Inl (Wrapf ''[cancelJobs] error reporting jobs marked as cancelled: %w'' [] err), tr2)
              | (None, tr2) \<Rightarrow>
                  (case jobRepository_DeleteJobs server jobs tr2 of
                     (Inl err, tr3) \<Rightarrow> (Inl (Wrapf ''[cancelJobs] error deleting jobs: %w'' [] err), tr3)
                   | (Inr deletionResult, tr3) \<Rightarrow>
                       (let cancelled = map fst (filter (\<lambda>(job, err). err = None) deletionResult);
                            cancelledIds = map Job_Id cancelled
                        in case reportJobsCancelled server (GetName princ) cancelled tr3 of
                             (Some err, tr4) \<Rightarrow>
                               (Inl (Wrapf ''[cancelJobs] error reporting job cancellation: %w'' [] err),
                                tr4)
                           | (None, tr4) \<Rightarrow> (Inr \<lparr>CancelledIds = cancelledIds\<rparr>, tr4)))))"

definition cancelJobsById ::
  "SubmitServer \<Rightarrow> Context \<Rightarrow> string \<Rightarrow> call list \<Rightarrow>
     CancellationResult option \<times> err option \<times> call list" where
  "cancelJobsById server ctx jobId tr =
     (case jobRepository_GetExistingJobsByIds server [jobId] tr of
        (Inl err, tr1) \<Rightarrow>
          (None,
           Some (Status Unavailable ''[cancelJobsById] error getting job with ID %s: %s'' [S jobId, E err]),
           tr1)
      | (Inr jobs, tr1) \<Rightarrow>
          if length jobs \<noteq> 1
          then (None,
                Some (Status Internal
                        ''[cancelJobsById] error getting job with ID %s: expected exactly one result, but got %v''
                        [S jobId]),
                tr1)
          else
            (case cancelJobs server ctx jobs tr1 of
               (Inl err, tr2) \<Rightarrow>
                 (case asErrNoPermission err of
                    Some e \<Rightarrow>
                      (None,
                       Some (Status PermissionDenied
                               ''[cancelJobsById] error canceling job with ID %s: %s''
                               [S jobId, E (NoPermission e)]),
                       tr2)
                  | None \<Rightarrow>
                      (None,
                       Some (Status Unavailable ''[cancelJobsById] error checking permissions: %s'' [E err]),
                       tr2))
             | (Inr result, tr2) \<Rightarrow> (Some result, None, tr2)))"

text \<open>
  Modelled from the spec: \<^verbatim>\<open>util.Batch\<close> is not among the sources. The ids are cut, in
  order, into chunks of the batch size, the last one possibly shorter; the spec gives no
  meaning to a batch size of zero, for which there is no chunk here.
\<close>

function Batch :: "string list \<Rightarrow> nat \<Rightarrow> string list list" where
  "Batch elements batchSize =
     (if batchSize = 0 \<or> elements = [] then []
      else take batchSize elements # Batch (drop batchSize elements) batchSize)"
  by pat_completeness auto
termination
  by (relation "measure (\<lambda>(elements, batchSize). length elements)") auto

declare Batch.simps [simp del]

text \<open>
  Modelled from the spec: \<^verbatim>\<open>util.CloseToDeadline\<close> is not among the sources. A context
  is close to its deadline when it has one and less than the tolerance is left of it;
  the time is handed in.
\<close>

definition CloseToDeadline :: "Context \<Rightarrow> int \<Rightarrow> int \<Rightarrow> bool" where
  "CloseToDeadline ctx tolerance now =
     (case Context_Deadline ctx of
        None \<Rightarrow> False
      | Some deadline \<Rightarrow> deadline - now < tolerance)"

definition time_Second :: int where
  "time_Second = 1000000000"

text \<open>The loop of \<^verbatim>\<open>cancelJobsByQueueAndSet\<close> over the batches.\<close>

fun cancelBatches ::
  "Packages \<Rightarrow> SubmitServer \<Rightarrow> Context \<Rightarrow> string list list \<Rightarrow> string list \<Rightarrow> call list \<Rightarrow>
     CancellationResult option \<times> err option \<times> call list" where
  "cancelBatches pkg server ctx [] cancelledIds tr =
     (Some \<lparr>CancelledIds = cancelledIds\<rparr>, None, tr)"
| "cancelBatches pkg server ctx (batch # batches) cancelledIds tr =
     (case jobRepository_GetExistingJobsByIds server batch tr of
        (Inl err, tr1) \<Rightarrow>
          (Some \<lparr>CancelledIds = cancelledIds\<rparr>,
           Some (Status Internal ''[cancelJobsBySetAndQueue] error getting jobs: %s'' [E err]),
           tr1)
      | (Inr jobs, tr1) \<Rightarrow>
          (case cancelJobs server ctx jobs tr1 of
             (Inl err, tr2) \<Rightarrow>
               (case asErrNoPermission err of
                  Some e \<Rightarrow>
                    (None,
                     Some (Status PermissionDenied ''[cancelJobsBySetAndQueue] error canceling jobs: %s''
                             [E (NoPermission e)]),
                     tr2)
                | None \<Rightarrow>
                    (Some \<lparr>CancelledIds = cancelledIds\<rparr>,
                     Some (Status Unavailable
                             ''[cancelJobsBySetAndQueue] error checking permissions: %s'' [E err]),
                     tr2))
           | (Inr result, tr2) \<Rightarrow>
               (let cancelledIds' = cancelledIds @ CancelledIds result
                in if CloseToDeadline ctx (time_Second * 1) (time_Now pkg tr2 0)
                   then (Some \<lparr>CancelledIds = cancelledIds'\<rparr>,
                         Some (Status DeadlineExceeded ''[cancelJobsBySetAndQueue] deadline exceeded'' []),
                         tr2)
                   else cancelBatches pkg server ctx batches cancelledIds' tr2)))"

definition cancelJobsByQueueAndSet ::
  "Packages \<Rightarrow> SubmitServer \<Rightarrow> Context \<Rightarrow> string \<Rightarrow> string \<Rightarrow> call list \<Rightarrow>
     CancellationResult option \<times> err option \<times> call list" where
  "cancelJobsByQueueAndSet pkg server ctx queue jobSetId tr =
     (case jobRepository_GetActiveJobIds server queue jobSetId tr of
        (Inl err, tr1) \<Rightarrow>
          (None,
           Some (Status Unavailable ''[cancelJobsBySetAndQueue] error getting job IDs: %s'' [E err]),
           tr1)
      | (Inr ids, tr1) \<Rightarrow>
          cancelBatches pkg server ctx (Batch ids (cancelJobsBatchSize server)) [] tr1)"

definition CancelJobs ::
  "Packages \<Rightarrow> SubmitServer \<Rightarrow> Context \<Rightarrow> JobCancelRequest \<Rightarrow> call list \<Rightarrow>
     CancellationResult option \<times> err option \<times> call list" where
  "CancelJobs pkg server ctx request tr =
     (if Cancel_JobId request \<noteq> '''' then cancelJobsById server ctx (Cancel_JobId request) tr
      else if Cancel_JobSetId request \<noteq> '''' \<and> Cancel_Queue request \<noteq> ''''
      then cancelJobsByQueueAndSet pkg server ctx (Cancel_Queue request) (Cancel_JobSetId request) tr
      else (None,
            Some (Status InvalidArgument
                    ''[CancelJobs] specify either job ID or both queue name and job set ID'' []),
            tr))"


text \<open>
  The queue tier in the words of the spec: some binding of the queue lists the verb and
  a subject that is the caller, as a user of that name or as a group the caller is in.
\<close>

definition grantedByQueue :: "Queue \<Rightarrow> Principal \<Rightarrow> PermissionVerb \<Rightarrow> bool" where
  "grantedByQueue q princ verb \<longleftrightarrow>
     (\<exists>binding \<in> set (Queue_Permissions q).
        verb \<in> set (Verbs binding) \<and>
        (\<exists>subject \<in> set (Subjects binding).
           (Subject_Kind subject = PermissionSubjectKindUser \<and> Subject_Name subject = GetName princ) \<or>
           (Subject_Kind subject = PermissionSubjectKindGroup \<and>
            Subject_Name subject \<in> set (GetGroupNames princ))))"

section \<open>A small deployment\<close>

text \<open>
  A deployment on which the model is run: the members of the group \<open>admins\<close> hold every
  global permission; the queue \<open>q1\<close> exists, grants submitting and cancelling to the
  group \<open>team\<close>, and has one active job set; no collaborator fails; the clock advances
  by a tenth of a second with every call of a collaborator.
\<close>

definition demoChecker :: PrincipalPermissionChecker where
  "demoChecker =
     \<lparr>permissionGroupMap = (\<lambda>perm. Some [''admins'']),
      permissionScopeMap = Map.empty,
      permissionClaimMap = Map.empty\<rparr>"

definition demoQueue :: Queue where
  "demoQueue =
     \<lparr>Queue_Name = ''q1'', PriorityFactor = 1,
      Queue_Permissions =
        [\<lparr>Subjects = [\<lparr>Subject_Kind = PermissionSubjectKindGroup, Subject_Name = ''team''\<rparr>],
          Verbs = [PermissionVerbSubmit, PermissionVerbCancel]\<rparr>],
      ResourceLimits = Map.empty\<rparr>"

definition demoJob :: "string \<Rightarrow> Job" where
  "demoJob jobId =
     \<lparr>Job_Id = jobId, Job_ClientId = '''', Job_Queue = ''q1'', Job_JobSetId = ''js1'',
      Job_Namespace = ''default'', Job_Labels = Map.empty, Job_Annotations = Map.empty,
      Job_RequiredNodeLabels = Map.empty, Job_Ingress = [], Job_Services = [], Job_Priority = 0,
      Job_PodSpec = None, Job_PodSpecs = [], Job_Created = 0, Job_Owner = ''alice'',
      Job_QueueOwnershipUserGroups = []\<rparr>"

definition demoServer :: SubmitServer where
  "demoServer =
     \<lparr>permissions = demoChecker,
      jobRepository =
        \<lparr>GetQueueActiveJobSets_reply =
           (\<lambda>tr name. Inr (if name = ''q1''
                            then [\<lparr>JobSetInfo_Name = ''js1'', QueuedJobs = 1, LeasedJobs = 0\<rparr>] else [])),
         AddJobs_reply =
           (\<lambda>tr jobs. Inr (map (\<lambda>job. \<lparr>Result_JobId = Job_Id job, Result_Error = None,
                                          DuplicateDetected = False\<rparr>) jobs)),
         GetExistingJobsByIds_reply = (\<lambda>tr ids. Inr (map demoJob ids)),
         GetActiveJobIds_reply = (\<lambda>tr queue jobSetId. Inr [''a'', ''b'', ''c'']),
         DeleteJobs_reply = (\<lambda>tr jobs. Inr (map (\<lambda>job. (job, None)) jobs))\<rparr>,
      queueRepository =
        \<lparr>GetQueue_reply =
           (\<lambda>tr name. if name = ''q1'' then Inr demoQueue else Inl (ErrQueueNotFound name)),
         CreateQueue_reply = (\<lambda>tr q. None),
         DeleteQueue_reply = (\<lambda>tr name. None)\<rparr>,
      eventStore = \<lparr>ReportEvents_reply = (\<lambda>tr events. None)\<rparr>,
      schedulingInfoRepository = \<lparr>GetClusterSchedulingInfo_reply = (\<lambda>tr. Inr Map.empty)\<rparr>,
      cancelJobsBatchSize = 1,
      queueManagementConfig = \<lparr>AutoCreateQueues = True, DefaultPriorityFactor = 1\<rparr>,
      schedulingConfig = \<lparr>DefaultJobLimits = Map.empty, DefaultJobTolerations = []\<rparr>\<rparr>"

definition demoPackages :: Packages where
  "demoPackages =
     \<lparr>validation_ValidatePodSpec = (\<lambda>spec config. None),
      validateJobsCanBeScheduled = (\<lambda>jobs info. None),
      util_NewULID = (\<lambda>k. ''01f3j0g1md4qx7z5qb148qnh4r''),
      time_Now = (\<lambda>tr k. 100000000 * int (length tr))\<rparr>"

definition demoContext :: "string \<Rightarrow> string list \<Rightarrow> int option \<Rightarrow> Context" where
  "demoContext name groups deadline =
     \<lparr>Context_Principal =
        \<lparr>Principal_Name = name, Principal_Groups = groups,
         Principal_Scopes = [], Principal_Claims = []\<rparr>,
      Context_Deadline = deadline\<rparr>"

definition demoItem :: JobSubmitRequestItem where
  "demoItem =
     \<lparr>Item_Priority = 0, Item_Namespace = '''', Item_ClientId = ''c1'',
      Item_Labels = Map.empty, Item_Annotations = Map.empty, Item_RequiredNodeLabels = Map.empty,
      Item_PodSpec = None,
      Item_PodSpecs =
        [Some \<lparr>Containers =
                  [\<lparr>Container_Name = ''main'',
                    Resources = \<lparr>Limits = Some [''cpu'' \<mapsto> 2], Requests = None\<rparr>\<rparr>],
                Tolerations = [], NodeSelector = None\<rparr>],
      Item_Ingress = [], Item_Services = []\<rparr>"

definition demoRequest :: "JobSubmitRequestItem list \<Rightarrow> JobSubmitRequest" where
  "demoRequest items = \<lparr>Request_Queue = ''q1'', Request_JobSetId = ''js1'', JobRequestItems = items\<rparr>"

section \<open>Request and limit symmetry\<close>

lemma fillContainer_lookup:
  "lookupRL (Requests (Resources (fillContainer c))) r =
     (case lookupRL (Requests (Resources c)) r of
        Some q \<Rightarrow> Some q
      | None \<Rightarrow> lookupRL (Limits (Resources c)) r)"
  "lookupRL (Limits (Resources (fillContainer c))) r =
     (case lookupRL (Limits (Resources c)) r of
        Some q \<Rightarrow> Some q
      | None \<Rightarrow> lookupRL (Requests (Resources c)) r)"
  by (simp_all add: fillContainer_def lookupRL_def orEmpty_def copyMissing_def Let_def
      split: option.splits)

lemma fillContainer_not_nil:
  "Requests (Resources (fillContainer c)) \<noteq> None \<and> Limits (Resources (fillContainer c)) \<noteq> None"
  by (simp add: fillContainer_def Let_def)

text \<open>
  Claim C3. After \<^verbatim>\<open>fillContainerRequestsAndLimits\<close>, for every container and every
  resource name \<open>r\<close>: \<open>r\<close> has a request if and only if it has a limit; a resource that
  had a limit only gets that limit as its request; a resource that had a request only
  gets that request as its limit; a resource that had both keeps both values. No
  container is added or dropped, and neither map is nil afterwards.
\<close>

theorem fillContainerRequestsAndLimits_symmetry:
  "length (fillContainerRequestsAndLimits cs) = length cs \<and>
   (\<forall>i < length cs. \<forall>r.
      let before = Resources (cs ! i);
          after = Resources (fillContainerRequestsAndLimits cs ! i)
      in Requests after \<noteq> None \<and> Limits after \<noteq> None \<and>
         (lookupRL (Requests after) r \<noteq> None \<longleftrightarrow> lookupRL (Limits after) r \<noteq> None) \<and>
         (\<forall>q. lookupRL (Requests before) r = None \<and> lookupRL (Limits before) r = Some q \<longrightarrow>
              lookupRL (Requests after) r = Some q \<and> lookupRL (Limits after) r = Some q) \<and>
         (\<forall>q. lookupRL (Requests before) r = Some q \<and> lookupRL (Limits before) r = None \<longrightarrow>
              lookupRL (Requests after) r = Some q \<and> lookupRL (Limits after) r = Some q) \<and>
         (\<forall>q q'. lookupRL (Requests before) r = Some q \<and> lookupRL (Limits before) r = Some q' \<longrightarrow>
              lookupRL (Requests after) r = Some q \<and> lookupRL (Limits after) r = Some q') \<and>
         (lookupRL (Requests before) r = None \<and> lookupRL (Limits before) r = None \<longrightarrow>
              lookupRL (Requests after) r = None \<and> lookupRL (Limits after) r = None))"
proof -
  have len: "length (fillContainerRequestsAndLimits cs) = length cs"
    by (simp add: fillContainerRequestsAndLimits_def)
  have nth: "fillContainerRequestsAndLimits cs ! i = fillContainer (cs ! i)" if "i < length cs" for i
    using that by (simp add: fillContainerRequestsAndLimits_def)
  show ?thesis
    using len fillContainer_not_nil
    by (auto simp: nth Let_def fillContainer_lookup split: option.splits)
qed

theorem fillContainerRequestsAndLimits_symmetry_witness:
  "(let cs = [\<lparr>Container_Name = ''main'',
               Resources = \<lparr>Limits = Some [''cpu'' \<mapsto> 2], Requests = Some [''memory'' \<mapsto> 5]\<rparr>\<rparr>];
        after = Resources (fillContainerRequestsAndLimits cs ! 0)
    in (0::nat) < length cs \<and>
       lookupRL (Requests after) ''cpu'' = Some 2 \<and> lookupRL (Limits after) ''cpu'' = Some 2 \<and>
       lookupRL (Requests after) ''memory'' = Some 5 \<and> lookupRL (Limits after) ''memory'' = Some 5 \<and>
       lookupRL (Requests after) ''gpu'' = None \<and> lookupRL (Limits after) ''gpu'' = None)"
  using fillContainerRequestsAndLimits_symmetry
    [of "[\<lparr>Container_Name = ''main'',
           Resources = \<lparr>Limits = Some [''cpu'' \<mapsto> 2], Requests = Some [''memory'' \<mapsto> 5]\<rparr>\<rparr>]"]
  by (simp add: Let_def lookupRL_def)

section \<open>Job ids in labels and annotations\<close>
























text \<open>The jobs of \<^verbatim>\<open>createJobsObjects\<close> carry the enriched labels and annotations.\<close>

lemma newJob_enriched:
  "Job_Id (newJob request owner groups item namespace jobId created podSpecs) = jobId \<and>
   Job_Labels (newJob request owner groups item namespace jobId created podSpecs)
     = enrichText (Item_Labels item) jobId \<and>
   Job_Annotations (newJob request owner groups item namespace jobId created podSpecs)
     = enrichText (Item_Annotations item) jobId"
  by (simp add: newJob_def)

text \<open>
  An id in the alphabet of ULIDs, lower or upper case, whose first character is one of
  the digits 0 to 7 cannot be mistaken for a part of the placeholder.
\<close>

lemma clearOfPlaceholder_ulid:
  assumes "jobId \<noteq> []"
    and "set jobId \<subseteq> set ''0123456789abcdefghjkmnpqrstvwxyzABCDEFGHJKMNPQRSTVWXYZ''"
    and "hd jobId \<in> set ''01234567''"
  shows "clearOfPlaceholder jobId"
proof -
  have "CHR '' '' \<notin> set ''0123456789abcdefghjkmnpqrstvwxyzABCDEFGHJKMNPQRSTVWXYZ''"
    by simp
  then have "CHR '' '' \<notin> set jobId" using assms(2) by blast
  moreover have "hd jobId \<noteq> CHR 0x5C \<and> hd jobId \<noteq> CHR ''z''" using assms(3) by auto
  ultimately show ?thesis using assms(1) by (simp add: clearOfPlaceholder_def)
qed

section \<open>Defaults from the scheduling configuration\<close>

lemma applyDefaultLimits_lookup:
  "lookupRL (Limits (Resources (applyDefaultLimits defaults c))) r =
     (if defaults r \<noteq> None \<and> lookupRL (Limits (Resources c)) r = None
      then defaults r else lookupRL (Limits (Resources c)) r)"
  "lookupRL (Requests (Resources (applyDefaultLimits defaults c))) r =
     (if defaults r \<noteq> None \<and> lookupRL (Limits (Resources c)) r = None
      then defaults r else lookupRL (Requests (Resources c)) r)"
  by (cases "Limits (Resources c)"; cases "Requests (Resources c)";
      simp add: applyDefaultLimits_def lookupRL_def orEmpty_def Let_def)+

text \<open>
  In \<^verbatim>\<open>createJobsObjects\<close> the defaults are applied to a pod spec whose containers went
  through \<^verbatim>\<open>fillContainerRequestsAndLimits\<close> first. There a resource has a request exactly
  when it has a limit, and the defaults apply exactly to the resources that have neither.
\<close>

lemma applyDefaultLimits_after_fill:
  "lookupRL (Requests (Resources (applyDefaultLimits defaults (fillContainer c)))) r =
     (if defaults r \<noteq> None \<and> lookupRL (Requests (Resources c)) r = None
                            \<and> lookupRL (Limits (Resources c)) r = None
      then defaults r else lookupRL (Requests (Resources (fillContainer c))) r)"
  "lookupRL (Limits (Resources (applyDefaultLimits defaults (fillContainer c)))) r =
     (if defaults r \<noteq> None \<and> lookupRL (Requests (Resources c)) r = None
                            \<and> lookupRL (Limits (Resources c)) r = None
      then defaults r else lookupRL (Limits (Resources (fillContainer c))) r)"
  by (auto simp: applyDefaultLimits_lookup fillContainer_lookup split: option.splits)


section \<open>The small deployment: who holds the global permissions\<close>

lemma demo_admin: "UserHasPermission demoChecker (demoContext n [''admins''] d) perm"
  by (simp add: UserHasPermission_def hasPermission_def demoChecker_def demoContext_def
      GetPrincipal_def IsInGroup_def)

lemma demo_other: "''admins'' \<notin> set gs \<Longrightarrow> \<not> UserHasPermission demoChecker (demoContext n gs d) perm"
  by (simp add: UserHasPermission_def hasPermission_def demoChecker_def demoContext_def
      GetPrincipal_def IsInGroup_def HasScope_def HasClaim_def)


section \<open>Auto-creation of queues\<close>

lemma userOwners_auto:
  "userOwners \<lparr>Queue_Name = n, PriorityFactor = pf,
                Queue_Permissions = [NewPermissionsFromOwners [u] gs], ResourceLimits = rl\<rparr> = [u]"
  by (simp add: userOwners_def NewPermissionsFromOwners_def NewPermissionSubjectsFromOwners_def
      filter_map comp_def)

text \<open>
  Claim C2. When the queue repository reports that the queue does not exist,
  \<^verbatim>\<open>getQueueOrCreate\<close> asks it to create a queue if and only if \<^verbatim>\<open>AutoCreateQueues\<close> is
  set and the caller holds \<^verbatim>\<open>submit_any_jobs\<close>. Otherwise it returns not-found after the
  lookup alone. A queue it asks to create has the name asked for and the caller as its
  only user-kind subject; it is the queue returned when the repository accepts it, and
  the handler returns aborted when the repository does not.
\<close>

theorem getQueueOrCreate_auto_create:
  assumes "GetQueue_reply (queueRepository server) tr queueName = Inl e"
    and "asErrQueueNotFound e \<noteq> None"
  shows
    "(let allowed = (AutoCreateQueues (queueManagementConfig server) \<and>
                     UserHasPermission (permissions server) ctx permissions_SubmitAnyJobs);
          looked = tr @ [QueueRepository_GetQueue queueName];
          (res, tr') = getQueueOrCreate server ctx queueName tr
      in ((\<exists>q. QueueRepository_CreateQueue q \<in> set (drop (length tr) tr')) \<longleftrightarrow> allowed) \<and>
         (\<not> allowed \<longrightarrow> res = Inl (Status NotFound ''Queue %q not found'' [S queueName]) \<and> tr' = looked) \<and>
         (\<forall>q. QueueRepository_CreateQueue q \<in> set (drop (length tr) tr') \<longrightarrow>
            Queue_Name q = queueName \<and>
            userOwners q = [GetName (GetPrincipal ctx)] \<and>
            tr' = looked @ [QueueRepository_CreateQueue q] \<and>
            (CreateQueue_reply (queueRepository server) looked q = None \<longrightarrow> res = Inr q) \<and>
            (CreateQueue_reply (queueRepository server) looked q \<noteq> None \<longrightarrow>
               res = Inl (Status Aborted ''%s'' [E e]))))"
  using assms
  by (auto simp: getQueueOrCreate_def queueRepository_GetQueue_def queueRepository_CreateQueue_def
      Let_def userOwners_auto split: option.splits prod.splits sum.splits)

theorem getQueueOrCreate_auto_create_witness:
  "GetQueue_reply (queueRepository demoServer) [] ''q2'' = Inl (ErrQueueNotFound ''q2'') \<and>
   asErrQueueNotFound (ErrQueueNotFound ''q2'') \<noteq> None \<and>
   getQueueOrCreate demoServer (demoContext ''alice'' [''admins''] None) ''q2'' [] =
     (Inr \<lparr>Queue_Name = ''q2'', PriorityFactor = 1,
           Queue_Permissions = [NewPermissionsFromOwners [''alice''] [''admins'']],
           ResourceLimits = Map.empty\<rparr>,
      [QueueRepository_GetQueue ''q2'',
       QueueRepository_CreateQueue
         \<lparr>Queue_Name = ''q2'', PriorityFactor = 1,
          Queue_Permissions = [NewPermissionsFromOwners [''alice''] [''admins'']],
          ResourceLimits = Map.empty\<rparr>]) \<and>
   getQueueOrCreate demoServer (demoContext ''bob'' [''team''] None) ''q2'' [] =
     (Inl (Status NotFound ''Queue %q not found'' [S ''q2'']), [QueueRepository_GetQueue ''q2''])"
proof -
  have g: "GetQueue_reply (queueRepository demoServer) [] ''q2'' = Inl (ErrQueueNotFound ''q2'')"
    by (simp add: demoServer_def)
  have n: "asErrQueueNotFound (ErrQueueNotFound ''q2'') \<noteq> None" by simp
  have a: "UserHasPermission (permissions demoServer) (demoContext ''alice'' [''admins''] None) permissions_SubmitAnyJobs"
    by (simp add: demoServer_def demo_admin)
  have b: "\<not> UserHasPermission (permissions demoServer) (demoContext ''bob'' [''team''] None) permissions_SubmitAnyJobs"
    by (simp add: demoServer_def demo_other)
  have c: "AutoCreateQueues (queueManagementConfig demoServer)"
    "DefaultPriorityFactor (queueManagementConfig demoServer) = 1"
    "CreateQueue_reply (queueRepository demoServer) t q = None" for t q
    by (simp_all add: demoServer_def)
  have 1: "getQueueOrCreate demoServer (demoContext ''bob'' [''team''] None) ''q2'' [] =
     (Inl (Status NotFound ''Queue %q not found'' [S ''q2'']), [QueueRepository_GetQueue ''q2''])"
    using getQueueOrCreate_auto_create[OF g n, of "demoContext ''bob'' [''team''] None"] b
    by (auto simp: Let_def split: prod.splits)
  have 2: "getQueueOrCreate demoServer (demoContext ''alice'' [''admins''] None) ''q2'' [] =
     (Inr \<lparr>Queue_Name = ''q2'', PriorityFactor = 1,
           Queue_Permissions = [NewPermissionsFromOwners [''alice''] [''admins'']],
           ResourceLimits = Map.empty\<rparr>,
      [QueueRepository_GetQueue ''q2'',
       QueueRepository_CreateQueue
         \<lparr>Queue_Name = ''q2'', PriorityFactor = 1,
          Queue_Permissions = [NewPermissionsFromOwners [''alice''] [''admins'']],
          ResourceLimits = Map.empty\<rparr>])"
    using g a c
    by (simp add: getQueueOrCreate_def queueRepository_GetQueue_def queueRepository_CreateQueue_def
        Let_def demoContext_def GetPrincipal_def GetName_def GetGroupNames_def)
  show ?thesis using g n 1 2 by simp
qed

section \<open>Deleting a queue\<close>



section \<open>Dispatch of CancelJobs\<close>

lemma checkQueuePermsLoop_calls:
  "\<exists>new. snd (checkQueuePermsLoop server ctx anyPermission permission verb names tr) = tr @ new \<and>
         (\<forall>c \<in> set new. \<exists>n. c = QueueRepository_GetQueue n)"
proof (induction names arbitrary: tr)
  case Nil
  then show ?case by simp
next
  case (Cons queueName rest)
  let ?tr1 = "tr @ [QueueRepository_GetQueue queueName]"
  from Cons[of ?tr1] obtain new where
    new: "snd (checkQueuePermsLoop server ctx anyPermission permission verb rest ?tr1) = ?tr1 @ new"
      "\<forall>c \<in> set new. \<exists>n. c = QueueRepository_GetQueue n" by blast
  have "snd (checkQueuePermsLoop server ctx anyPermission permission verb (queueName # rest) tr) = ?tr1
      \<or> snd (checkQueuePermsLoop server ctx anyPermission permission verb (queueName # rest) tr)
          = snd (checkQueuePermsLoop server ctx anyPermission permission verb rest ?tr1)"
    by (simp add: queueRepository_GetQueue_def split: sum.splits option.splits)
  then show ?case
  proof
    assume "snd (checkQueuePermsLoop server ctx anyPermission permission verb (queueName # rest) tr) = ?tr1"
    then show ?thesis by (intro exI[of _ "[QueueRepository_GetQueue queueName]"]) simp
  next
    assume "snd (checkQueuePermsLoop server ctx anyPermission permission verb (queueName # rest) tr)
          = snd (checkQueuePermsLoop server ctx anyPermission permission verb rest ?tr1)"
    then show ?thesis using new
      by (intro exI[of _ "QueueRepository_GetQueue queueName # new"]) auto
  qed
qed

text \<open>The calls \<^verbatim>\<open>cancelJobs\<close> makes: no listing of active job ids is among them.\<close>

lemma cancelJobs_calls:
  "\<exists>new. snd (cancelJobs server ctx jobs tr) = tr @ new \<and>
         (\<forall>queue jobSetId. JobRepository_GetActiveJobIds queue jobSetId \<notin> set new)"
proof -
  obtain new where new: "snd (checkCancelPerms server ctx jobs tr) = tr @ new"
    "\<forall>c \<in> set new. \<exists>n. c = QueueRepository_GetQueue n"
    unfolding checkCancelPerms_def using checkQueuePermsLoop_calls by blast
  then have n: "\<forall>queue jobSetId. JobRepository_GetActiveJobIds queue jobSetId \<notin> set new" by auto
  obtain r where r: "checkCancelPerms server ctx jobs tr = (r, tr @ new)"
    using new(1) by (cases "checkCancelPerms server ctx jobs tr") auto
  show ?thesis
    using n
    by (auto simp: cancelJobs_def r Let_def reportJobsCancelling_def reportJobsCancelled_def
        eventStore_ReportEvents_def jobRepository_DeleteJobs_def
        split: option.splits sum.splits prod.splits)
qed

lemma cancelJobsById_calls:
  "\<exists>new. snd (snd (cancelJobsById server ctx jobId tr)) = tr @ new \<and>
         (\<forall>queue jobSetId. JobRepository_GetActiveJobIds queue jobSetId \<notin> set new)"
proof (cases "GetExistingJobsByIds_reply (jobRepository server) tr [jobId]")
  case (Inl e)
  then show ?thesis
    by (simp add: cancelJobsById_def jobRepository_GetExistingJobsByIds_def)
next
  case (Inr jobs)
  let ?tr1 = "tr @ [JobRepository_GetExistingJobsByIds [jobId]]"
  obtain new where new: "snd (cancelJobs server ctx jobs ?tr1) = ?tr1 @ new"
    "\<forall>queue jobSetId. JobRepository_GetActiveJobIds queue jobSetId \<notin> set new"
    using cancelJobs_calls by blast
  obtain r where r: "cancelJobs server ctx jobs ?tr1 = (r, ?tr1 @ new)"
    using new(1) by (cases "cancelJobs server ctx jobs ?tr1") auto
  show ?thesis
    using new(2) Inr
    by (auto simp: cancelJobsById_def jobRepository_GetExistingJobsByIds_def r
        split: option.splits sum.splits)
qed

text \<open>
  Claim C10. A request with a job id is handled by \<^verbatim>\<open>cancelJobsById\<close> on that id:
  whatever queue and job set it names make no difference, and the active job ids of no
  job set are listed. A request without a job id that lacks the queue or the job set id
  is answered with invalid-argument, and no collaborator is called.
\<close>

theorem CancelJobs_dispatch:
  "(Cancel_JobId request \<noteq> '''' \<longrightarrow>
      CancelJobs pkg server ctx request tr = cancelJobsById server ctx (Cancel_JobId request) tr \<and>
      (\<forall>queue jobSetId.
         CancelJobs pkg server ctx (request\<lparr>Cancel_Queue := queue, Cancel_JobSetId := jobSetId\<rparr>) tr
           = CancelJobs pkg server ctx request tr) \<and>
      (\<forall>queue jobSetId.
         JobRepository_GetActiveJobIds queue jobSetId
           \<notin> set (drop (length tr) (snd (snd (CancelJobs pkg server ctx request tr)))))) \<and>
   (Cancel_JobId request = '''' \<and> (Cancel_Queue request = '''' \<or> Cancel_JobSetId request = '''') \<longrightarrow>
      CancelJobs pkg server ctx request tr =
        (None,
         Some (Status InvalidArgument
                 ''[CancelJobs] specify either job ID or both queue name and job set ID'' []),
         tr))"
proof -
  obtain new where new:
    "snd (snd (cancelJobsById server ctx (Cancel_JobId request) tr)) = tr @ new"
    "\<forall>queue jobSetId. JobRepository_GetActiveJobIds queue jobSetId \<notin> set new"
    using cancelJobsById_calls by blast
  show ?thesis using new by (auto simp: CancelJobs_def)
qed

theorem CancelJobs_dispatch_witness:
  "Cancel_JobId \<lparr>Cancel_JobId = ''a'', Cancel_JobSetId = ''js1'', Cancel_Queue = ''q1''\<rparr> \<noteq> '''' \<and>
   CancelJobs demoPackages demoServer (demoContext ''alice'' [''admins''] None)
      \<lparr>Cancel_JobId = ''a'', Cancel_JobSetId = ''js1'', Cancel_Queue = ''q1''\<rparr> [] =
     (Some \<lparr>CancelledIds = [''a'']\<rparr>, None,
      [JobRepository_GetExistingJobsByIds [''a''],
       QueueRepository_GetQueue ''q1'',
       EventStore_ReportEvents [JobCancellingEvent ''alice'' (demoJob ''a'')],
       JobRepository_DeleteJobs [demoJob ''a''],
       EventStore_ReportEvents [JobCancelledEvent ''alice'' (demoJob ''a'')]]) \<and>
   CancelJobs demoPackages demoServer (demoContext ''alice'' [''admins''] None)
      \<lparr>Cancel_JobId = '''', Cancel_JobSetId = '''', Cancel_Queue = ''q1''\<rparr> [] =
     (None,
      Some (Status InvalidArgument
              ''[CancelJobs] specify either job ID or both queue name and job set ID'' []),
      [])"
proof -
  let ?ctx = "demoContext ''alice'' [''admins''] None"
  let ?r1 = "\<lparr>Cancel_JobId = ''a'', Cancel_JobSetId = ''js1'', Cancel_Queue = ''q1''\<rparr>"
  let ?r2 = "\<lparr>Cancel_JobId = '''', Cancel_JobSetId = '''', Cancel_Queue = ''q1''\<rparr>"
  have q: "Job_Queue (demoJob ''a'') = ''q1''" "Job_Id (demoJob ''a'') = ''a''"
    by (simp_all add: demoJob_def)
  have s: "permissions demoServer = demoChecker"
    "GetQueue_reply (queueRepository demoServer) t ''q1'' = Inr demoQueue"
    "ReportEvents_reply (eventStore demoServer) t es = None"
    "DeleteJobs_reply (jobRepository demoServer) t js = Inr (map (\<lambda>job. (job, None)) js)"
    "GetExistingJobsByIds_reply (jobRepository demoServer) t ids = Inr (map demoJob ids)"
    for t es js ids
    by (simp_all add: demoServer_def)
  have n: "GetName (GetPrincipal ?ctx) = ''alice''"
    by (simp add: GetName_def GetPrincipal_def demoContext_def)
  have byId: "cancelJobsById demoServer ?ctx ''a'' [] =
     (Some \<lparr>CancelledIds = [''a'']\<rparr>, None,
      [JobRepository_GetExistingJobsByIds [''a''],
       QueueRepository_GetQueue ''q1'',
       EventStore_ReportEvents [JobCancellingEvent ''alice'' (demoJob ''a'')],
       JobRepository_DeleteJobs [demoJob ''a''],
       EventStore_ReportEvents [JobCancelledEvent ''alice'' (demoJob ''a'')]])"
    by (simp add: cancelJobsById_def cancelJobs_def checkCancelPerms_def q s n
        jobRepository_GetExistingJobsByIds_def queueRepository_GetQueue_def checkPermission_def
        demo_admin reportJobsCancelling_def reportJobsCancelled_def eventStore_ReportEvents_def
        jobRepository_DeleteJobs_def Let_def)
  have 1: "CancelJobs demoPackages demoServer ?ctx ?r1 [] = cancelJobsById demoServer ?ctx ''a'' []"
    using CancelJobs_dispatch[of ?r1 demoPackages demoServer ?ctx "[]"] by simp
  have 2: "CancelJobs demoPackages demoServer ?ctx ?r2 [] =
     (None,
      Some (Status InvalidArgument
              ''[CancelJobs] specify either job ID or both queue name and job set ID'' []),
      [])"
    by (simp add: CancelJobs_def)
  show ?thesis using 1 2 byId by simp
qed

section \<open>The calls and the codes of SubmitJobs\<close>

lemma getQueueOrCreate_calls:
  "\<exists>new. snd (getQueueOrCreate server ctx queueName tr) = tr @ new \<and>
         (\<forall>c \<in> set new. (\<exists>n. c = QueueRepository_GetQueue n) \<or> (\<exists>q. c = QueueRepository_CreateQueue q))"
  by (auto simp: getQueueOrCreate_def queueRepository_GetQueue_def queueRepository_CreateQueue_def
      Let_def split: sum.splits option.splits prod.splits)

lemma SubmitJobs_respond_calls:
  "\<exists>new. snd (snd (SubmitJobs_respond server jobs results tr)) = tr @ new \<and>
         (\<forall>c \<in> set new. \<exists>events. c = EventStore_ReportEvents events)"
  by (auto simp: SubmitJobs_respond_def reportFailed_def reportDuplicateDetected_def
      reportQueued_def eventStore_ReportEvents_def Let_def
      split: sum.splits option.splits prod.splits)



lemma SubmitJobs_store_calls:
  "\<exists>new. snd (snd (SubmitJobs_store pkg server name jobs tr)) = tr @ new \<and>
         (\<forall>c \<in> set new. c = SchedulingInfoRepository_GetClusterSchedulingInfo \<or>
                           c = JobRepository_AddJobs jobs \<or>
                           (\<exists>events. c = EventStore_ReportEvents events))"
proof (cases "GetClusterSchedulingInfo_reply (schedulingInfoRepository server) tr")
  case (Inl e)
  then show ?thesis
    by (simp add: SubmitJobs_store_def schedulingInfoRepository_GetClusterSchedulingInfo_def)
next
  case info: (Inr info)
  let ?tr1 = "tr @ [SchedulingInfoRepository_GetClusterSchedulingInfo]"
  show ?thesis
  proof (cases "validateJobsCanBeScheduled pkg jobs info")
    case (Some e)
    then show ?thesis using info
      by (simp add: SubmitJobs_store_def schedulingInfoRepository_GetClusterSchedulingInfo_def)
  next
    case ok: None
    let ?tr2 = "?tr1 @ [EventStore_ReportEvents (map JobSubmittedEvent jobs)]"
    show ?thesis
    proof (cases "ReportEvents_reply (eventStore server) ?tr1 (map JobSubmittedEvent jobs)")
      case (Some e)
      then show ?thesis using info ok
        by (simp add: SubmitJobs_store_def schedulingInfoRepository_GetClusterSchedulingInfo_def
            reportSubmitted_def eventStore_ReportEvents_def)
    next
      case sub: None
      let ?tr3 = "?tr2 @ [JobRepository_AddJobs jobs]"
      show ?thesis
      proof (cases "AddJobs_reply (jobRepository server) ?tr2 jobs")
        case (Inl e)
        then show ?thesis using info ok sub
          by (simp add: SubmitJobs_store_def schedulingInfoRepository_GetClusterSchedulingInfo_def
              reportSubmitted_def reportFailed_def eventStore_ReportEvents_def
              jobRepository_AddJobs_def split: option.splits)
      next
        case (Inr results)
        from SubmitJobs_respond_calls[of server jobs results ?tr3] obtain new where
          new: "snd (snd (SubmitJobs_respond server jobs results ?tr3)) = ?tr3 @ new"
          "\<forall>c \<in> set new. \<exists>events. c = EventStore_ReportEvents events" by blast
        have "SubmitJobs_store pkg server name jobs tr = SubmitJobs_respond server jobs results ?tr3"
          using info ok sub Inr
          by (simp add: SubmitJobs_store_def schedulingInfoRepository_GetClusterSchedulingInfo_def
              reportSubmitted_def eventStore_ReportEvents_def jobRepository_AddJobs_def)
        then show ?thesis using new
          by (intro exI[of _ "[SchedulingInfoRepository_GetClusterSchedulingInfo,
                EventStore_ReportEvents (map JobSubmittedEvent jobs), JobRepository_AddJobs jobs] @ new"])
             auto
      qed
    qed
  qed
qed





section \<open>Two-tier authorization\<close>

lemma subject_eq_iff:
  "(s :: PermissionSubject) = \<lparr>Subject_Kind = k, Subject_Name = n\<rparr> \<longleftrightarrow>
     Subject_Kind s = k \<and> Subject_Name s = n"
  by (cases s) auto

lemma queueGrants_iff: "queueGrants q princ verb \<longleftrightarrow> grantedByQueue q princ verb"
proof
  assume "queueGrants q princ verb"
  then obtain subject binding where
    s: "subject \<in> set (NewPermissionSubjectsFromOwners [GetName princ] (GetGroupNames princ))"
    and b: "binding \<in> set (Queue_Permissions q)" "subject \<in> set (Subjects binding)"
      "verb \<in> set (Verbs binding)"
    by (auto simp: queueGrants_def HasPermission_def list_ex_iff)
  from s have "(Subject_Kind subject = PermissionSubjectKindUser \<and> Subject_Name subject = GetName princ) \<or>
           (Subject_Kind subject = PermissionSubjectKindGroup \<and>
            Subject_Name subject \<in> set (GetGroupNames princ))"
    by (auto simp: NewPermissionSubjectsFromOwners_def)
  then show "grantedByQueue q princ verb"
    unfolding grantedByQueue_def using b by blast
next
  assume "grantedByQueue q princ verb"
  then obtain binding subject where
    b: "binding \<in> set (Queue_Permissions q)" "verb \<in> set (Verbs binding)"
      "subject \<in> set (Subjects binding)"
    and k: "(Subject_Kind subject = PermissionSubjectKindUser \<and> Subject_Name subject = GetName princ) \<or>
           (Subject_Kind subject = PermissionSubjectKindGroup \<and>
            Subject_Name subject \<in> set (GetGroupNames princ))"
    unfolding grantedByQueue_def by blast
  from k have "subject \<in> set (NewPermissionSubjectsFromOwners [GetName princ] (GetGroupNames princ))"
    by (auto simp: NewPermissionSubjectsFromOwners_def subject_eq_iff image_iff)
  then show "queueGrants q princ verb"
    using b by (auto simp: queueGrants_def HasPermission_def list_ex_iff)
qed

lemma SubmitJobs_checkPermissions_eq:
  "SubmitJobs_checkPermissions server ctx req q =
     (if \<not> UserHasPermission (permissions server) ctx permissions_SubmitAnyJobs \<and>
         \<not> queueGrants q (GetPrincipal ctx) PermissionVerbSubmit
      then Some (Status PermissionDenied ''[SubmitJobs] error submitting job in queue %s: %s''
                   [S (Request_Queue req),
                    E (NoPermission
                         \<lparr>ErrNoPermission_Principal = GetName (GetPrincipal ctx),
                          ErrNoPermission_Refusals =
                            [GlobalRefusal permissions_SubmitAnyJobs,
                             QueueRefusal (Queue_Name q) PermissionVerbSubmit]\<rparr>)])
      else None)"
  by (simp add: SubmitJobs_checkPermissions_def checkPermission_def checkQueuePermission_def
      MergePermissionErrors_def)






section \<open>Ownership groups\<close>

lemma SubmitJobs_ownershipGroups_eq:
  "SubmitJobs_ownershipGroups ctx q =
     (if HasPermission q \<lparr>Subject_Kind = PermissionSubjectKindUser,
                           Subject_Name = GetName (GetPrincipal ctx)\<rparr> PermissionVerbSubmit
      then []
      else filter (\<lambda>g. HasPermission q \<lparr>Subject_Kind = PermissionSubjectKindGroup, Subject_Name = g\<rparr>
                          PermissionVerbSubmit)
             (GetGroupNames (GetPrincipal ctx)))"
  by (simp add: SubmitJobs_ownershipGroups_def NewPermissionSubjectsFromOwners_def Let_def
      filter_map comp_def)

lemma createJobObject_Inr:
  assumes "createJobObject pkg server request owner groups getTime getUlid i item = Inr job"
  shows "\<exists>namespace podSpecs.
           job = newJob request owner groups item namespace (getUlid i) (getTime i) podSpecs"
  using assms unfolding createJobObject_def Let_def
  by (auto split: if_splits option.splits sum.splits)

lemma createJobObject_groups:
  "createJobObject pkg server request owner groups getTime getUlid i item = Inr job \<Longrightarrow>
     Job_QueueOwnershipUserGroups job = groups"
  by (drule createJobObject_Inr) (auto simp: newJob_def)

lemma createJobObject_enriched:
  assumes "createJobObject pkg server request owner groups getTime getUlid i item = Inr job"
  shows "Job_Id job = getUlid i \<and>
         Job_Labels job = enrichText (Item_Labels item) (getUlid i) \<and>
         Job_Annotations job = enrichText (Item_Annotations item) (getUlid i)"
  using createJobObject_Inr[OF assms] by (auto simp: newJob_def)

lemma createJobsLoop_groups:
  "createJobsLoop pkg server request owner groups getTime getUlid i items acc = Inr jobs \<Longrightarrow>
     \<forall>job \<in> set acc. Job_QueueOwnershipUserGroups job = groups \<Longrightarrow>
     \<forall>job \<in> set jobs. Job_QueueOwnershipUserGroups job = groups"
proof (induction items arbitrary: i acc)
  case Nil
  then show ?case by simp
next
  case (Cons item items)
  from Cons.prems(1) obtain job where
    j: "createJobObject pkg server request owner groups getTime getUlid i item = Inr job"
    and r: "createJobsLoop pkg server request owner groups getTime getUlid (Suc i) items (acc @ [job]) = Inr jobs"
    by (simp split: sum.splits)
  have "\<forall>job \<in> set (acc @ [job]). Job_QueueOwnershipUserGroups job = groups"
    using Cons.prems(2) createJobObject_groups[OF j] by simp
  from Cons.IH[OF r this] show ?case .
qed

lemma createJobs_groups:
  assumes "createJobs pkg server request owner groups tr = Inr jobs"
  shows "\<forall>job \<in> set jobs. Job_QueueOwnershipUserGroups job = groups"
proof -
  from assms have "createJobsLoop pkg server request owner groups (time_Now pkg tr) (util_NewULID pkg)
      0 (JobRequestItems request) [] = Inr jobs"
    unfolding createJobs_def createJobsObjects_def by (simp split: if_splits)
  from createJobsLoop_groups[OF this] show ?thesis by simp
qed

text \<open>What \<^verbatim>\<open>SubmitJobs\<close> does once the queue is there.\<close>

lemma SubmitJobs_resolved:
  assumes "getQueueOrCreate server ctx (Request_Queue req) tr = (Inr q, tr1)"
  shows "SubmitJobs pkg server ctx req tr =
     (case SubmitJobs_checkPermissions server ctx req q of
        Some err \<Rightarrow> (None, Some err, tr1)
      | None \<Rightarrow>
          (case createJobs pkg server req (GetName (GetPrincipal ctx))
                  (SubmitJobs_ownershipGroups ctx q) tr1 of
             Inl e \<Rightarrow>
               if isPanic e then (None, Some e, tr1)
               else (None,
                     Some (Status InvalidArgument ''[SubmitJobs] Error submitting job %s for user %s: %v''
                             [S (GetName (GetPrincipal ctx)), E e]),
                     tr1)
           | Inr jobs \<Rightarrow> SubmitJobs_store pkg server (GetName (GetPrincipal ctx)) jobs tr1))"
  unfolding SubmitJobs_def Let_def assms by simp

text \<open>
  Claim C9. Every job that \<^verbatim>\<open>SubmitJobs\<close> hands to the job repository carries the
  ownership groups of the request: none when the queue grants the submit verb to the
  caller as a user-kind subject, and otherwise the groups of the caller that are
  themselves granted the submit verb on the queue, in the order the caller has them.
\<close>

theorem SubmitJobs_ownership_groups:
  assumes res: "getQueueOrCreate server ctx (Request_Queue req) tr = (Inr q, tr1)"
  shows "\<forall>jobs. JobRepository_AddJobs jobs
                  \<in> set (drop (length tr) (snd (snd (SubmitJobs pkg server ctx req tr)))) \<longrightarrow>
           (\<forall>job \<in> set jobs.
              Job_QueueOwnershipUserGroups job =
                (if HasPermission q \<lparr>Subject_Kind = PermissionSubjectKindUser,
                                      Subject_Name = GetName (GetPrincipal ctx)\<rparr> PermissionVerbSubmit
                 then []
                 else filter (\<lambda>g. HasPermission q
                                     \<lparr>Subject_Kind = PermissionSubjectKindGroup, Subject_Name = g\<rparr>
                                     PermissionVerbSubmit)
                        (GetGroupNames (GetPrincipal ctx))))"
proof (intro allI impI)
  fix jobs
  assume a: "JobRepository_AddJobs jobs
                  \<in> set (drop (length tr) (snd (snd (SubmitJobs pkg server ctx req tr))))"
  let ?groups = "SubmitJobs_ownershipGroups ctx q"
  let ?name = "GetName (GetPrincipal ctx)"
  from getQueueOrCreate_calls[of server ctx "Request_Queue req" tr] res obtain qnew where
    qnew: "tr1 = tr @ qnew"
    "\<forall>c \<in> set qnew. (\<exists>n. c = QueueRepository_GetQueue n) \<or> (\<exists>q. c = QueueRepository_CreateQueue q)"
    by auto
  then have nq: "JobRepository_AddJobs jobs \<notin> set qnew" by auto
  have "\<exists>created. createJobs pkg server req ?name ?groups tr1 = Inr created \<and>
          JobRepository_AddJobs jobs
            \<in> set (drop (length tr) (snd (snd (SubmitJobs_store pkg server ?name created tr1))))"
  proof (cases "SubmitJobs_checkPermissions server ctx req q")
    case (Some err)
    then show ?thesis using a nq unfolding SubmitJobs_resolved[OF res] qnew(1) by simp
  next
    case None
    show ?thesis
    proof (cases "createJobs pkg server req ?name ?groups tr1")
      case (Inl e)
      then show ?thesis using a nq None unfolding SubmitJobs_resolved[OF res] qnew(1)
        by (simp split: if_splits)
    next
      case (Inr created)
      then show ?thesis using a None unfolding SubmitJobs_resolved[OF res] by simp
    qed
  qed
  then obtain created where c: "createJobs pkg server req ?name ?groups tr1 = Inr created"
    and s: "JobRepository_AddJobs jobs
            \<in> set (drop (length tr) (snd (snd (SubmitJobs_store pkg server ?name created tr1))))"
    by blast
  from SubmitJobs_store_calls[of pkg server ?name created tr1] obtain new where
    new: "snd (snd (SubmitJobs_store pkg server ?name created tr1)) = tr1 @ new"
    "\<forall>c \<in> set new. c = SchedulingInfoRepository_GetClusterSchedulingInfo \<or>
                           c = JobRepository_AddJobs created \<or>
                           (\<exists>events. c = EventStore_ReportEvents events)"
    by blast
  have "JobRepository_AddJobs jobs \<in> set new"
    using s nq new(1) unfolding qnew(1) by auto
  then have "jobs = created" using new(2) by auto
  then have "\<forall>job \<in> set jobs. Job_QueueOwnershipUserGroups job = ?groups"
    using createJobs_groups[OF c] by simp
  then show "\<forall>job \<in> set jobs.
              Job_QueueOwnershipUserGroups job =
                (if HasPermission q \<lparr>Subject_Kind = PermissionSubjectKindUser,
                                      Subject_Name = GetName (GetPrincipal ctx)\<rparr> PermissionVerbSubmit
                 then []
                 else filter (\<lambda>g. HasPermission q
                                     \<lparr>Subject_Kind = PermissionSubjectKindGroup, Subject_Name = g\<rparr>
                                     PermissionVerbSubmit)
                        (GetGroupNames (GetPrincipal ctx)))"
    by (simp only: SubmitJobs_ownershipGroups_eq)
qed


section \<open>Malformed items\<close>









section \<open>Cancelling a job set in batches\<close>






section \<open>The small deployment at work\<close>

lemma demo_server [simp]:
  "permissions demoServer = demoChecker"
  "GetQueue_reply (queueRepository demoServer) t ''q1'' = Inr demoQueue"
  "ReportEvents_reply (eventStore demoServer) t es = None"
  "DeleteJobs_reply (jobRepository demoServer) t js = Inr (map (\<lambda>job. (job, None)) js)"
  "GetExistingJobsByIds_reply (jobRepository demoServer) t ids = Inr (map demoJob ids)"
  "GetActiveJobIds_reply (jobRepository demoServer) t queue jobSetId = Inr [''a'', ''b'', ''c'']"
  "AddJobs_reply (jobRepository demoServer) t js =
     Inr (map (\<lambda>job. \<lparr>Result_JobId = Job_Id job, Result_Error = None, DuplicateDetected = False\<rparr>) js)"
  "GetClusterSchedulingInfo_reply (schedulingInfoRepository demoServer) t = Inr Map.empty"
  "cancelJobsBatchSize demoServer = 1"
  "schedulingConfig demoServer = \<lparr>DefaultJobLimits = Map.empty, DefaultJobTolerations = []\<rparr>"
  by (simp_all add: demoServer_def)

lemma demo_context [simp]:
  "GetName (GetPrincipal (demoContext n gs d)) = n"
  "GetGroupNames (GetPrincipal (demoContext n gs d)) = gs"
  "Context_Deadline (demoContext n gs d) = d"
  by (simp_all add: demoContext_def GetName_def GetPrincipal_def GetGroupNames_def)

lemma demo_getQueue:
  "getQueueOrCreate demoServer ctx ''q1'' tr = (Inr demoQueue, tr @ [QueueRepository_GetQueue ''q1''])"
  by (simp add: getQueueOrCreate_def queueRepository_GetQueue_def)


lemma demo_store:
  "SubmitJobs_store demoPackages demoServer n [j] tr =
     (Some \<lparr>JobResponseItems = [\<lparr>Response_JobId = Job_Id j, Response_Error = None\<rparr>]\<rparr>, None,
      tr @ [SchedulingInfoRepository_GetClusterSchedulingInfo,
            EventStore_ReportEvents [JobSubmittedEvent j],
            JobRepository_AddJobs [j],
            EventStore_ReportEvents [], EventStore_ReportEvents [],
            EventStore_ReportEvents [JobQueuedEvent j]])"
  by (simp add: SubmitJobs_store_def SubmitJobs_respond_def
      schedulingInfoRepository_GetClusterSchedulingInfo_def demoPackages_def reportSubmitted_def
      reportFailed_def reportDuplicateDetected_def reportQueued_def eventStore_ReportEvents_def
      jobRepository_AddJobs_def Let_def)

lemma demo_createJobs:
  "\<exists>j. createJobs demoPackages demoServer (demoRequest [demoItem]) owner groups tr = Inr [j]"
  by (simp add: createJobs_def createJobsObjects_def createJobObject_def demoRequest_def
      demoItem_def GetAllPodSpecs_def ValidateJobSubmitRequestItem_def validateIngressConfigs_def
      Let_def demoPackages_def mergeRequiredNodeLabels_def applyDefaultsToPodSpec_def)




theorem SubmitJobs_ownership_groups_witness:
  "getQueueOrCreate demoServer (demoContext ''bob'' [''team''] None)
      (Request_Queue (demoRequest [demoItem])) [] = (Inr demoQueue, [QueueRepository_GetQueue ''q1'']) \<and>
   (\<exists>job. JobRepository_AddJobs [job]
             \<in> set (drop (length ([] :: call list))
                     (snd (snd (SubmitJobs demoPackages demoServer (demoContext ''bob'' [''team''] None)
                                  (demoRequest [demoItem]) [])))) \<and>
           Job_QueueOwnershipUserGroups job = [''team''])"
proof -
  let ?ctx = "demoContext ''bob'' [''team''] None"
  let ?req = "demoRequest [demoItem]"
  have r: "Request_Queue ?req = ''q1''" by (simp add: demoRequest_def)
  have g: "getQueueOrCreate demoServer ?ctx (Request_Queue ?req) [] =
             (Inr demoQueue, [QueueRepository_GetQueue ''q1''])"
    by (simp add: r demo_getQueue)
  have p: "SubmitJobs_checkPermissions demoServer ?ctx ?req demoQueue = None"
    by (simp add: SubmitJobs_checkPermissions_eq queueGrants_iff grantedByQueue_def demoQueue_def)
  obtain j where j: "createJobs demoPackages demoServer ?req ''bob''
                       (SubmitJobs_ownershipGroups ?ctx demoQueue) [QueueRepository_GetQueue ''q1''] = Inr [j]"
    using demo_createJobs by blast
  have s: "SubmitJobs demoPackages demoServer ?ctx ?req [] =
             SubmitJobs_store demoPackages demoServer ''bob'' [j] [QueueRepository_GetQueue ''q1'']"
    by (simp add: SubmitJobs_resolved[OF g] p j)
  have a: "JobRepository_AddJobs [j]
             \<in> set (drop (length ([] :: call list))
                     (snd (snd (SubmitJobs demoPackages demoServer ?ctx ?req []))))"
    by (simp add: s demo_store)
  have h: "\<not> HasPermission demoQueue
              \<lparr>Subject_Kind = PermissionSubjectKindUser, Subject_Name = ''bob''\<rparr> PermissionVerbSubmit"
    "HasPermission demoQueue
              \<lparr>Subject_Kind = PermissionSubjectKindGroup, Subject_Name = ''team''\<rparr> PermissionVerbSubmit"
    by (simp_all add: HasPermission_def demoQueue_def)
  from SubmitJobs_ownership_groups[OF g, of demoPackages] a
  have "Job_QueueOwnershipUserGroups j = [''team'']"
    using h by fastforce
  then show ?thesis using g a by blast
qed




end
